theory Spec2Isabelle
  imports Complex_Main "HOL-Library.Sublist" "HOL-Library.AList"
begin

section \<open>Exceptions and Python strings\<close>

text \<open>
  The resume agent (\<^verbatim>\<open>resume_agent.py\<close>) is Python. Every exception the code can raise or
  receive is a value of \<open>py_error\<close>; a function that can raise returns \<open>py_error + 'a\<close>
  with \<open>Inl\<close> for the exception. \<open>LibraryError\<close> stands for any exception raised
  inside a collaborator library (S3, PDF reader, OCR, document store, vector index,
  embedding model); the others are the exceptions the Python code or the interpreter raise
  themselves.

  A Python \<open>str\<close> is a \<open>string\<close>; one \<open>char\<close> stands for one code point (the model
  covers code points below 256).
\<close>

datatype py_error =
    ValueError string
  | RuntimeError string
  | IndexError string
  | KeyError string
  | AttributeError string
  | LibraryError string

fun err_str :: "py_error \<Rightarrow> string" where
  "err_str (ValueError m) = m"
| "err_str (RuntimeError m) = m"
| "err_str (IndexError m) = m"
| "err_str (KeyError m) = [CHR 0x27] @ m @ [CHR 0x27]"
| "err_str (AttributeError m) = m"
| "err_str (LibraryError m) = m"

text \<open>\<^verbatim>\<open>str.isspace\<close> on the code points below 256: TAB, LF, VT, FF, CR, FS, GS, RS, US,
  space, NEL and the no-break space.\<close>

definition whitespace_codes :: "nat list" where
  "whitespace_codes = [9, 10, 11, 12, 13, 28, 29, 30, 31, 32, 133, 160]"

definition py_isspace :: "char \<Rightarrow> bool" where
  "py_isspace c = (of_char c \<in> set whitespace_codes)"

text \<open>\<^verbatim>\<open>s.strip()\<close>: leading and trailing whitespace removed.\<close>

definition py_strip :: "string \<Rightarrow> string" where
  "py_strip s = rev (dropWhile py_isspace (rev (dropWhile py_isspace s)))"

text \<open>\<^verbatim>\<open>s.lower()\<close>, on the letters A to Z; only the comparison with the ASCII suffixes
  \<^verbatim>\<open>.jpg\<close>, \<^verbatim>\<open>.jpeg\<close>, \<^verbatim>\<open>.png\<close> reads the result.\<close>

definition char_lower :: "char \<Rightarrow> char" where
  "char_lower c =
     (case map_of (zip ''ABCDEFGHIJKLMNOPQRSTUVWXYZ'' ''abcdefghijklmnopqrstuvwxyz'') c of
        Some l \<Rightarrow> l
      | None \<Rightarrow> c)"

definition py_lower :: "string \<Rightarrow> string" where
  "py_lower s = map char_lower s"

text \<open>\<^verbatim>\<open>s.endswith((a, b, ...))\<close> with a tuple of suffixes.\<close>

definition endswith_any :: "string \<Rightarrow> string list \<Rightarrow> bool" where
  "endswith_any s sufs = list_ex (\<lambda>suf. suffix suf s) sufs"

subsection \<open>\<^verbatim>\<open>str.split(sep)\<close>\<close>

text \<open>
  \<^verbatim>\<open>s.split(sep)\<close> scans \<open>s\<close> from the left; at each position where \<open>sep\<close> starts
  it closes the current piece and resumes after the separator, so the occurrences it
  cuts at do not overlap. An empty separator raises \<open>ValueError\<close>. The accumulator
  \<open>acc\<close> holds the current piece, reversed.
\<close>

fun split_from :: "string \<Rightarrow> string \<Rightarrow> string \<Rightarrow> string list" where
  "split_from sep acc [] = [rev acc]"
| "split_from sep acc (c # cs) =
     (if prefix sep (c # cs)
      then rev acc # split_from sep [] (drop (length sep - 1) cs)
      else split_from sep (c # acc) cs)"

definition str_split :: "string \<Rightarrow> string \<Rightarrow> py_error + string list" where
  "str_split s sep =
     (if sep = [] then Inl (ValueError ''empty separator'') else Inr (split_from sep [] s))"

text \<open>\<^verbatim>\<open>xs[-1]\<close>: the last element; \<open>IndexError\<close> on an empty list.\<close>

definition index_last :: "'a list \<Rightarrow> py_error + 'a" where
  "index_last xs =
     (case rev xs of
        [] \<Rightarrow> Inl (IndexError ''list index out of range'')
      | x # _ \<Rightarrow> Inr x)"

subsection \<open>\<^verbatim>\<open>extract_s3_key\<close>\<close>

text \<open>\<^verbatim>\<open>return url.split(".amazonaws.com/")[-1]\<close>\<close>

definition amazonaws_marker :: string where
  "amazonaws_marker = ''.amazonaws.com/''"

definition extract_s3_key :: "string \<Rightarrow> py_error + string" where
  "extract_s3_key url =
     (case str_split url amazonaws_marker of
        Inl e \<Rightarrow> Inl e
      | Inr parts \<Rightarrow> index_last parts)"

text \<open>\<open>occurs_in m s\<close>: the string \<open>m\<close> occurs somewhere in \<open>s\<close>.\<close>

fun occurs_in :: "string \<Rightarrow> string \<Rightarrow> bool" where
  "occurs_in m [] = (m = [])"
| "occurs_in m (c # cs) = (prefix m (c # cs) \<or> occurs_in m cs)"

text \<open>A string is border-free when no proper, non-empty suffix of it is also a prefix
  of it: two occurrences of such a string never overlap.\<close>

definition border_free :: "string \<Rightarrow> bool" where
  "border_free m = (m \<noteq> [] \<and> list_all (\<lambda>k. \<not> prefix (drop k m) m) [1..<length m])"

section \<open>Data model\<close>

text \<open>
  A value stored in a document or in a vector point's payload. A number is carried by
  its Python \<^verbatim>\<open>repr\<close>: the pipelines store \<^verbatim>\<open>time.time()\<close> and test a number only for
  being zero. Arrays and embedded documents are left out: no field the pipelines read
  holds one.
\<close>

datatype bson =
    BNull
  | BBool bool
  | BStr string
  | BNum string
  | BObjectId string

text \<open>A document (a Python \<^verbatim>\<open>dict\<close>) is an association list; \<^verbatim>\<open>d.get(k)\<close> is \<open>map_of d k\<close>.\<close>

type_synonym document = "(string \<times> bson) list"

text \<open>\<^verbatim>\<open>str(v)\<close> for a stored value.\<close>

fun py_str :: "bson \<Rightarrow> string" where
  "py_str BNull = ''None''"
| "py_str (BBool b) = (if b then ''True'' else ''False'')"
| "py_str (BStr s) = s"
| "py_str (BNum r) = r"
| "py_str (BObjectId h) = h"

text \<open>Python's truth value of \<^verbatim>\<open>d.get(k)\<close>: \<^verbatim>\<open>None\<close>, \<^verbatim>\<open>False\<close>, the empty string and
  zero are false.\<close>

fun py_truthy :: "bson option \<Rightarrow> bool" where
  "py_truthy None = False"
| "py_truthy (Some BNull) = False"
| "py_truthy (Some (BBool b)) = b"
| "py_truthy (Some (BStr s)) = (s \<noteq> [])"
| "py_truthy (Some (BNum r)) = (r \<notin> {''0'', ''0.0'', ''-0.0''})"
| "py_truthy (Some (BObjectId h)) = True"

text \<open>\<^verbatim>\<open>PointStruct(id, vector, payload)\<close>, and a point returned by a similarity query
  (\<^verbatim>\<open>payload\<close> and \<^verbatim>\<open>score\<close> may be \<^verbatim>\<open>None\<close>). A similarity score is a Python float,
  taken here as a real number.\<close>

record point =
  point_id :: string
  vector :: "real list"
  payload :: document

record scored_point =
  sp_payload :: "document option"
  sp_score :: "real option"

subsection \<open>Store queries\<close>

text \<open>
  The filters the code passes to \<^verbatim>\<open>find\<close>, \<^verbatim>\<open>count_documents\<close> and \<^verbatim>\<open>update_one\<close>. A
  filter is a conjunction of clauses: a field with its operators, or \<^verbatim>\<open>$or\<close> over
  filters. \<open>Regex_caret p\<close> is \<^verbatim>\<open>{"$regex": "^p"}\<close> for a literal \<open>p\<close>.
\<close>

datatype cond =
    Exists bool
  | Regex_caret string
  | Equals bson

datatype clause =
    Field string "cond list"
  | Or "clause list list"

type_synonym query = "clause list"

fun matches_cond :: "bson option \<Rightarrow> cond \<Rightarrow> bool" where
  "matches_cond v (Exists b) = ((v \<noteq> None) = b)"
| "matches_cond v (Regex_caret p) = (case v of Some (BStr s) \<Rightarrow> prefix p s | _ \<Rightarrow> False)"
| "matches_cond v (Equals x) = (v = Some x \<or> (x = BNull \<and> v = None))"

fun matches_clause :: "document \<Rightarrow> clause \<Rightarrow> bool" where
  "matches_clause d (Field k cs) = list_all (matches_cond (map_of d k)) cs"
| "matches_clause d (Or qs) = list_ex (\<lambda>q. list_all (matches_clause d) q) qs"

definition matches :: "query \<Rightarrow> document \<Rightarrow> bool" where
  "matches q d = list_all (matches_clause d) q"

text \<open>\<^verbatim>\<open>cursor.limit(n)\<close>: 0 means no limit, a negative \<open>n\<close> limits to \<open>|n|\<close>.\<close>

definition cursor_limit :: "int \<Rightarrow> 'a list \<Rightarrow> 'a list" where
  "cursor_limit n xs = (if n = 0 then xs else take (nat \<bar>n\<bar>) xs)"

text \<open>\<^verbatim>\<open>{"$set": upd}\<close> on one document, and \<^verbatim>\<open>update_one(q, {"$set": upd})\<close> on a
  collection: the first document matching \<open>q\<close> is updated, none if none matches.\<close>

definition set_fields :: "(string \<times> bson) list \<Rightarrow> document \<Rightarrow> document" where
  "set_fields upd d = foldl (\<lambda>d' (k, v). AList.update k v d') d upd"

fun update_first :: "query \<Rightarrow> (string \<times> bson) list \<Rightarrow> document list \<Rightarrow> document list" where
  "update_first q upd [] = []"
| "update_first q upd (d # ds) =
     (if matches q d then set_fields upd d # ds else d # update_first q upd ds)"

subsection \<open>Collaborators and the observable state\<close>

text \<open>
  Every call the pipelines make on the document store, the vector index and the
  embedding model is recorded, in order, in the log.
\<close>

datatype event =
    CountDocuments query
  | Find string query
  | UpdateOne query "(string \<times> bson) list"
  | Upsert "point list"
  | Encode string
  | QueryPoints "real list"
  | Sleep

text \<open>The state the pipelines change: the \<^verbatim>\<open>applications\<close> collection and the log.\<close>

record world =
  applications :: "document list"
  log :: "event list"

type_synonym bytes = string
type_synonym image = string
type_synonym page = string

text \<open>
  The collaborators, as the code sees them after \<^verbatim>\<open>init_resources()\<close>; \<open>init_error\<close>
  is the exception, if any, that \<^verbatim>\<open>init_resources()\<close> lets through while it builds the
  clients, and the three flags tell which of the globals \<^verbatim>\<open>applications\<close>, \<^verbatim>\<open>qdrant\<close>
  and \<^verbatim>\<open>model\<close> are set. A library call returns \<open>Inl msg\<close> when it raises. \<open>read_fault n\<close>, \<open>write_fault n\<close> and
  \<open>upsert_fault n\<close> give the exception, if any, raised by a store read, a store update
  and an index upsert issued when the log holds \<open>n\<close> events; \<open>now n\<close> is the \<^verbatim>\<open>repr\<close>
  of \<^verbatim>\<open>time.time()\<close> read at that moment. \<open>s3_get_object\<close> is \<open>None\<close> when the global \<^verbatim>\<open>s3\<close> is \<^verbatim>\<open>None\<close>;
  \<open>companies\<close>, \<open>jobs\<close> and \<open>job_statuses\<close> are what \<^verbatim>\<open>db.get(name)\<close> returns.
\<close>

record env =
  init_error :: "string option"
  mongo_configured :: bool
  qdrant_configured :: bool
  model_loaded :: bool
  s3_get_object :: "(string \<Rightarrow> string + bytes) option"
  image_open :: "bytes \<Rightarrow> string + image"
  image_to_string :: "image \<Rightarrow> string + string"
  fitz_open :: "bytes \<Rightarrow> string + page list"
  page_get_text :: "page \<Rightarrow> string + string"
  convert_from_bytes :: "bytes \<Rightarrow> string + image list"
  encode :: "string \<Rightarrow> string + real list"
  uuid5_dns :: "string \<Rightarrow> string"
  query_points :: "real list \<Rightarrow> string + scored_point list"
  soup_get_text :: "string \<Rightarrow> string"
  read_fault :: "nat \<Rightarrow> string option"
  write_fault :: "nat \<Rightarrow> string option"
  upsert_fault :: "nat \<Rightarrow> string option"
  now :: "nat \<Rightarrow> string"
  batch_size :: int
  companies :: "document list option"
  jobs :: "document list option"
  job_statuses :: "document list option"
  coll_get_id :: "(bson \<Rightarrow> bson) option"

section \<open>The extractor: \<^verbatim>\<open>extract_text_from_s3\<close>\<close>

text \<open>
  The variable \<^verbatim>\<open>text\<close> is threaded through the loops: each returns the text
  accumulated so far and the exception that stopped it, if any.

  \<^verbatim>\<open>for page in doc: text += page.get_text()\<close>
\<close>

fun get_text_pages :: "env \<Rightarrow> page list \<Rightarrow> string \<Rightarrow> string \<times> py_error option" where
  "get_text_pages E [] text = (text, None)"
| "get_text_pages E (p # ps) text =
     (case page_get_text E p of
        Inl m \<Rightarrow> (text, Some (LibraryError m))
      | Inr t \<Rightarrow> get_text_pages E ps (text @ t))"

text \<open>\<^verbatim>\<open>for img in images: text += pytesseract.image_to_string(img)\<close>\<close>

fun ocr_images :: "env \<Rightarrow> image list \<Rightarrow> string \<Rightarrow> string \<times> py_error option" where
  "ocr_images E [] text = (text, None)"
| "ocr_images E (i # is) text =
     (case image_to_string E i of
        Inl m \<Rightarrow> (text, Some (LibraryError m))
      | Inr t \<Rightarrow> ocr_images E is (text @ t))"

text \<open>\<^verbatim>\<open>images = convert_from_bytes(file_bytes)\<close> followed by the OCR loop.\<close>

definition rasterize_and_ocr :: "env \<Rightarrow> bytes \<Rightarrow> string \<Rightarrow> string \<times> py_error option" where
  "rasterize_and_ocr E file_bytes text =
     (case convert_from_bytes E file_bytes of
        Inl m \<Rightarrow> (text, Some (LibraryError m))
      | Inr images \<Rightarrow> ocr_images E images text)"

text \<open>\<^verbatim>\<open>with fitz.open(stream=file_bytes, filetype="pdf") as doc: ...\<close>, from \<^verbatim>\<open>text = ""\<close>.\<close>

definition structured_text :: "env \<Rightarrow> bytes \<Rightarrow> string \<times> py_error option" where
  "structured_text E file_bytes =
     (case fitz_open E file_bytes of
        Inl m \<Rightarrow> ([], Some (LibraryError m))
      | Inr pages \<Rightarrow> get_text_pages E pages [])"

text \<open>The body of the \<^verbatim>\<open>try\<close>: structured extraction, then OCR if the text is blank.\<close>

definition pdf_try_body :: "env \<Rightarrow> bytes \<Rightarrow> string \<times> py_error option" where
  "pdf_try_body E file_bytes =
     (case structured_text E file_bytes of
        (text, Some e) \<Rightarrow> (text, Some e)
      | (text, None) \<Rightarrow>
          if py_strip text = [] then rasterize_and_ocr E file_bytes text else (text, None))"

definition is_image_key :: "string \<Rightarrow> bool" where
  "is_image_key key = endswith_any (py_lower key) [''.jpg'', ''.jpeg'', ''.png'']"

text \<open>The text accumulated for a key and its bytes, before the final check (lines
  130 to 148): the image branch, or the \<^verbatim>\<open>try\<close> with its \<^verbatim>\<open>except Exception\<close> handler,
  which runs the OCR path again on the text accumulated so far.\<close>

definition accumulate_text :: "env \<Rightarrow> string \<Rightarrow> bytes \<Rightarrow> py_error + string" where
  "accumulate_text E key file_bytes =
     (if is_image_key key then
        (case image_open E file_bytes of
           Inl m \<Rightarrow> Inl (LibraryError m)
         | Inr img \<Rightarrow>
             (case image_to_string E img of
                Inl m \<Rightarrow> Inl (LibraryError m)
              | Inr t \<Rightarrow> Inr t))
      else
        (case pdf_try_body E file_bytes of
           (text, None) \<Rightarrow> Inr text
         | (text, Some _) \<Rightarrow>
             (case rasterize_and_ocr E file_bytes text of
                (text', None) \<Rightarrow> Inr text'
              | (_, Some e') \<Rightarrow> Inl e')))"

definition extract_text_from_s3 :: "env \<Rightarrow> string \<Rightarrow> py_error + string" where
  "extract_text_from_s3 E url =
     (case s3_get_object E of
        None \<Rightarrow> Inl (RuntimeError ''S3 client not configured'')
      | Some get_object \<Rightarrow>
          (case extract_s3_key url of
             Inl e \<Rightarrow> Inl e
           | Inr key \<Rightarrow>
               (case get_object key of
                  Inl m \<Rightarrow> Inl (LibraryError m)
                | Inr file_bytes \<Rightarrow>
                    (case accumulate_text E key file_bytes of
                       Inl e \<Rightarrow> Inl e
                     | Inr text \<Rightarrow>
                         if py_strip text = [] then Inl (ValueError ''No text extracted'')
                         else Inr text))))"

section \<open>Calls on the store, the index and the model\<close>

text \<open>A call is logged when it is issued; it raises when its fault oracle says so.\<close>

definition logged :: "event \<Rightarrow> world \<Rightarrow> world" where
  "logged ev w = w\<lparr>log := log w @ [ev]\<rparr>"

definition raised :: "(nat \<Rightarrow> string option) \<Rightarrow> world \<Rightarrow> py_error option" where
  "raised flt w = map_option LibraryError (flt (length (log w)))"

text \<open>\<^verbatim>\<open>applications.count_documents(query)\<close>; the count is only printed.\<close>

definition count_documents :: "env \<Rightarrow> query \<Rightarrow> world \<Rightarrow> py_error option \<times> world" where
  "count_documents E q w = (raised (read_fault E) w, logged (CountDocuments q) w)"

text \<open>\<^verbatim>\<open>list(applications.find(query).limit(BATCH_SIZE))\<close>\<close>

definition find_batch :: "env \<Rightarrow> query \<Rightarrow> world \<Rightarrow> (py_error + document list) \<times> world" where
  "find_batch E q w =
     (case raised (read_fault E) w of
        Some e \<Rightarrow> (Inl e, logged (Find ''applications'' q) w)
      | None \<Rightarrow>
          (Inr (cursor_limit (batch_size E) (filter (matches q) (applications w))),
           logged (Find ''applications'' q) w))"

text \<open>\<^verbatim>\<open>list(coll.find(query))\<close> on one of the collections the pipelines only read.\<close>

definition find_in :: "env \<Rightarrow> string \<Rightarrow> document list \<Rightarrow> query \<Rightarrow> world
    \<Rightarrow> (py_error + document list) \<times> world" where
  "find_in E name coll q w =
     (case raised (read_fault E) w of
        Some e \<Rightarrow> (Inl e, logged (Find name q) w)
      | None \<Rightarrow> (Inr (filter (matches q) coll), logged (Find name q) w))"

text \<open>\<^verbatim>\<open>applications.update_one(q, {"$set": upd})\<close>\<close>

definition update_one :: "env \<Rightarrow> query \<Rightarrow> (string \<times> bson) list \<Rightarrow> world
    \<Rightarrow> py_error option \<times> world" where
  "update_one E q upd w =
     (case raised (write_fault E) w of
        Some e \<Rightarrow> (Some e, logged (UpdateOne q upd) w)
      | None \<Rightarrow>
          (None, logged (UpdateOne q upd) (w\<lparr>applications := update_first q upd (applications w)\<rparr>)))"

text \<open>\<^verbatim>\<open>qdrant.upsert(collection_name=QDRANT_COLLECTION, points=points)\<close>\<close>

definition upsert :: "env \<Rightarrow> point list \<Rightarrow> world \<Rightarrow> py_error option \<times> world" where
  "upsert E points w = (raised (upsert_fault E) w, logged (Upsert points) w)"

text \<open>\<^verbatim>\<open>model.encode(text).tolist()\<close>\<close>

definition model_encode :: "env \<Rightarrow> string \<Rightarrow> world \<Rightarrow> (py_error + real list) \<times> world" where
  "model_encode E text w =
     (case encode E text of
        Inl m \<Rightarrow> (Inl (LibraryError m), logged (Encode text) w)
      | Inr v \<Rightarrow> (Inr v, logged (Encode text) w))"

section \<open>The indexing pipeline: \<^verbatim>\<open>resume_indexing_agent\<close>\<close>

text \<open>The eligibility filter of lines 173 to 181.\<close>

definition pending_query :: query where
  "pending_query =
     [Field ''resume'' [Exists True, Regex_caret ''http''],
      Field ''resume_status'' [Equals (BStr ''open'')],
      Or [[Field ''rag_uploaded'' [Equals (BBool False)]],
          [Field ''rag_uploaded'' [Equals (BStr ''False'')]],
          [Field ''rag_uploaded'' [Exists False]]]]"

definition id_query :: "bson \<Rightarrow> query" where
  "id_query oid = [Field ''_id'' [Equals oid]]"

definition indexed_update :: "string \<Rightarrow> (string \<times> bson) list" where
  "indexed_update t =
     [(''resume_status'', BStr ''indexed''), (''rag_uploaded'', BBool True),
      (''indexed_at'', BNum t)]"

definition failed_update :: "py_error \<Rightarrow> (string \<times> bson) list" where
  "failed_update e = [(''resume_status'', BStr ''failed''), (''error'', BStr (err_str e))]"

text \<open>\<^verbatim>\<open>PointStruct(id=mongo_id_to_uuid(app_id), vector=embedding, payload={...})\<close>\<close>

definition build_point :: "env \<Rightarrow> string \<Rightarrow> string \<Rightarrow> string \<Rightarrow> real list \<Rightarrow> point" where
  "build_point E app_id job_id text embedding =
     \<lparr>point_id = uuid5_dns E app_id,
      vector = embedding,
      payload = [(''application_id'', BStr app_id), (''job_id'', BStr job_id),
                 (''resume_text'', BStr (take 1500 text))]\<rparr>"

text \<open>\<^verbatim>\<open>extract_text_from_s3(app["resume"])\<close>: a missing field raises \<open>KeyError\<close>; a value
  that is not a string has no \<^verbatim>\<open>split\<close>, after the check of the S3 client.\<close>

definition extract_resume :: "env \<Rightarrow> document \<Rightarrow> py_error + string" where
  "extract_resume E app =
     (case map_of app ''resume'' of
        None \<Rightarrow> Inl (KeyError ''resume'')
      | Some (BStr url) \<Rightarrow> extract_text_from_s3 E url
      | Some _ \<Rightarrow>
          if s3_get_object E = None then Inl (RuntimeError ''S3 client not configured'')
          else Inl (AttributeError ''object has no attribute split''))"

text \<open>The body of the \<^verbatim>\<open>try\<close> of lines 197 to 213. The point is appended before the
  record is updated, so it stays in \<open>points\<close> when the update raises.\<close>

definition index_try_body :: "env \<Rightarrow> document \<Rightarrow> bson \<Rightarrow> string \<Rightarrow> string \<Rightarrow> point list \<Rightarrow> world
    \<Rightarrow> py_error option \<times> point list \<times> world" where
  "index_try_body E app oid app_id job_id points w =
     (case extract_resume E app of
        Inl e \<Rightarrow> (Some e, points, w)
      | Inr text \<Rightarrow>
          (case model_encode E text w of
             (Inl e, w1) \<Rightarrow> (Some e, points, w1)
           | (Inr embedding, w1) \<Rightarrow>
               (let points' = points @ [build_point E app_id job_id text embedding]
                in case update_one E (id_query oid) (indexed_update (now E (length (log w1)))) w1 of
                     (err, w2) \<Rightarrow> (err, points', w2))))"

text \<open>One turn of \<^verbatim>\<open>for app in batch\<close>: the \<^verbatim>\<open>try\<close> and its \<^verbatim>\<open>except Exception\<close> handler.
  An exception of the handler's own update leaves the loop.\<close>

definition process_app :: "env \<Rightarrow> document \<Rightarrow> point list \<Rightarrow> world
    \<Rightarrow> py_error option \<times> point list \<times> world" where
  "process_app E app points w =
     (case map_of app ''_id'' of
        None \<Rightarrow> (Some (KeyError ''_id''), points, w)
      | Some oid \<Rightarrow>
          (let app_id = py_str oid;
               job_id = py_str (case map_of app ''jobID'' of None \<Rightarrow> BStr [] | Some j \<Rightarrow> j)
           in case index_try_body E app oid app_id job_id points w of
                (None, points', w') \<Rightarrow> (None, points', w')
              | (Some e, points', w') \<Rightarrow>
                  (case update_one E (id_query oid) (failed_update e) w' of
                     (err, w'') \<Rightarrow> (err, points', w''))))"

fun process_batch :: "env \<Rightarrow> document list \<Rightarrow> point list \<Rightarrow> world
    \<Rightarrow> py_error option \<times> point list \<times> world" where
  "process_batch E [] points w = (None, points, w)"
| "process_batch E (app # rest) points w =
     (case process_app E app points w of
        (Some e, points', w') \<Rightarrow> (Some e, points', w')
      | (None, points', w') \<Rightarrow> process_batch E rest points' w')"

text \<open>How one turn of \<^verbatim>\<open>while True\<close> ends: by \<^verbatim>\<open>break\<close>, by an exception that leaves
  the function, or by going round again.\<close>

datatype step = Break | Raise py_error | Again

definition indexing_iteration :: "env \<Rightarrow> world \<Rightarrow> step \<times> world" where
  "indexing_iteration E w =
     (case count_documents E pending_query w of
        (Some e, w1) \<Rightarrow> (Raise e, w1)
      | (None, w1) \<Rightarrow>
          (case find_batch E pending_query w1 of
             (Inl e, w2) \<Rightarrow> (Raise e, w2)
           | (Inr batch, w2) \<Rightarrow>
               if batch = [] then (Break, w2)
               else
                 (case process_batch E batch [] w2 of
                    (Some e, points, w3) \<Rightarrow> (Raise e, w3)
                  | (None, points, w3) \<Rightarrow>
                      (case (if points \<noteq> [] then upsert E points w3 else (None, w3)) of
                         (Some e, w4) \<Rightarrow> (Raise e, w4)
                       | (None, w4) \<Rightarrow> (Again, logged Sleep w4)))))"

text \<open>The loop. Its result is \<open>None\<close> when it runs forever, \<open>Some (Inr (), w)\<close> when
  it leaves by \<^verbatim>\<open>break\<close> and \<open>Some (Inl e, w)\<close> when \<open>e\<close> escapes.\<close>

partial_function (option) indexing_loop :: "env \<Rightarrow> world \<Rightarrow> ((py_error + unit) \<times> world) option" where
  "indexing_loop E w =
     (case indexing_iteration E w of
        (Break, w') \<Rightarrow> Some (Inr (), w')
      | (Raise e, w') \<Rightarrow> Some (Inl e, w')
      | (Again, w') \<Rightarrow> indexing_loop E w')"

declare indexing_loop.simps [code]

text \<open>The entry point: \<^verbatim>\<open>init_resources()\<close>, the three guards, the loop. The function
  has no \<^verbatim>\<open>return\<close> with a value: it returns \<^verbatim>\<open>None\<close>, here \<open>()\<close>.\<close>

definition resume_indexing_agent :: "env \<Rightarrow> world \<Rightarrow> ((py_error + unit) \<times> world) option" where
  "resume_indexing_agent E w =
     (case init_error E of
        Some m \<Rightarrow> Some (Inl (LibraryError m), w)
      | None \<Rightarrow>
          if \<not> mongo_configured E then Some (Inr (), w)
          else if \<not> qdrant_configured E then Some (Inr (), w)
          else if \<not> model_loaded E then Some (Inr (), w)
          else indexing_loop E w)"

section \<open>The matching pipeline: \<^verbatim>\<open>jd_matching_agent\<close>\<close>

text \<open>\<^verbatim>\<open>re.sub(r"\s+", " ", text)\<close>: every maximal run of whitespace becomes one space.\<close>

function collapse_ws :: "string \<Rightarrow> string" where
  "collapse_ws [] = []"
| "collapse_ws (c # cs) =
     (if py_isspace c then CHR '' '' # collapse_ws (dropWhile py_isspace cs)
      else c # collapse_ws cs)"
  by pat_completeness auto
termination
  by (relation "measure length") (auto simp: less_Suc_eq_le length_dropWhile_le)

text \<open>\<^verbatim>\<open>clean_html\<close>; the HTML parser's \<^verbatim>\<open>get_text(separator=" ")\<close> is a collaborator.\<close>

definition clean_html :: "env \<Rightarrow> string \<Rightarrow> string" where
  "clean_html E raw_html = py_strip (collapse_ws (soup_get_text E raw_html))"

text \<open>\<^verbatim>\<open>[r for r in search_results if r.payload.get("job_id") == job_id]\<close>; a result
  whose payload is \<^verbatim>\<open>None\<close> raises \<open>AttributeError\<close>.\<close>

fun filter_by_job :: "string \<Rightarrow> scored_point list \<Rightarrow> py_error + scored_point list" where
  "filter_by_job job_id [] = Inr []"
| "filter_by_job job_id (r # rs) =
     (case sp_payload r of
        None \<Rightarrow> Inl (AttributeError ''NoneType object has no attribute get'')
      | Some p \<Rightarrow>
          (case filter_by_job job_id rs of
             Inl e \<Rightarrow> Inl e
           | Inr keep \<Rightarrow>
               Inr (if map_of p ''job_id'' = Some (BStr job_id) then r # keep else keep)))"

text \<open>\<^verbatim>\<open>[r.score for r in search_results if r.score is not None]\<close>\<close>

definition scores_of :: "scored_point list \<Rightarrow> real list" where
  "scores_of search_results = List.map_filter sp_score search_results"

text \<open>\<^verbatim>\<open>max(scores)\<close> on a non-empty list, given as head and tail.\<close>

definition py_max :: "real \<Rightarrow> real list \<Rightarrow> real" where
  "py_max s ss = fold max ss s"

text \<open>The filter of the status write: \<^verbatim>\<open>applications._get_id(application_id)\<close> when
  the collection has that attribute, \<^verbatim>\<open>application_id\<close> otherwise.\<close>

definition status_filter :: "env \<Rightarrow> bson \<Rightarrow> query" where
  "status_filter E application_id =
     id_query (case coll_get_id E of Some f \<Rightarrow> f application_id | None \<Rightarrow> application_id)"

definition decide :: "real \<Rightarrow> real \<Rightarrow> string" where
  "decide cutoff score = (if score \<ge> cutoff then ''selected'' else ''rejected'')"

text \<open>\<^verbatim>\<open>for result in search_results\<close> (lines 298 to 306). An exception of a write
  leaves the loop.\<close>

fun write_statuses :: "env \<Rightarrow> real \<Rightarrow> scored_point list \<Rightarrow> world \<Rightarrow> py_error option \<times> world" where
  "write_statuses E cutoff [] w = (None, w)"
| "write_statuses E cutoff (result # rest) w =
     (let payload = (case sp_payload result of None \<Rightarrow> [] | Some p \<Rightarrow> p);
          application_id = map_of payload ''application_id''
      in case (application_id, sp_score result) of
           (Some aid, Some score) \<Rightarrow>
             if \<not> py_truthy (Some aid) then write_statuses E cutoff rest w
             else
               (case update_one E (status_filter E aid)
                       [(''resume_status'', BStr (decide cutoff score))] w of
                  (Some e, w') \<Rightarrow> (Some e, w')
                | (None, w') \<Rightarrow> write_statuses E cutoff rest w')
         | _ \<Rightarrow> write_statuses E cutoff rest w)"

text \<open>The body of the \<^verbatim>\<open>try\<close> of lines 281 to 306.\<close>

definition match_try_body :: "env \<Rightarrow> string \<Rightarrow> real list \<Rightarrow> world \<Rightarrow> py_error option \<times> world" where
  "match_try_body E job_id jd_vector w =
     (let w1 = logged (QueryPoints jd_vector) w
      in case query_points E jd_vector of
           Inl m \<Rightarrow> (Some (LibraryError m), w1)
         | Inr results \<Rightarrow>
             (case filter_by_job job_id results of
                Inl e \<Rightarrow> (Some e, w1)
              | Inr search_results \<Rightarrow>
                  if search_results = [] then (None, w1)
                  else
                    (case scores_of search_results of
                       [] \<Rightarrow> (None, w1)
                     | s # ss \<Rightarrow>
                         (let best_score = py_max s ss;
                              cutoff = best_score * 0.63
                          in write_statuses E cutoff search_results w1))))"

text \<open>One turn of \<^verbatim>\<open>for job in open_jobs\<close>. The emptiness test reads the description
  as stored; \<^verbatim>\<open>except Exception\<close> of line 308 ends the turn without an exception.\<close>

definition process_job :: "env \<Rightarrow> document \<Rightarrow> world \<Rightarrow> py_error option \<times> world" where
  "process_job E job w =
     (case map_of job ''_id'' of
        None \<Rightarrow> (Some (KeyError ''_id''), w)
      | Some jid \<Rightarrow>
          (case (case map_of job ''description'' of None \<Rightarrow> BStr [] | Some d \<Rightarrow> d) of
             BStr job_description \<Rightarrow>
               if py_strip job_description = [] then (None, w)
               else
                 (case model_encode E (clean_html E job_description) w of
                    (Inl e, w1) \<Rightarrow> (Some e, w1)
                  | (Inr jd_vector, w1) \<Rightarrow>
                      (case match_try_body E (py_str jid) jd_vector w1 of
                         (_, w2) \<Rightarrow> (None, w2)))
           | _ \<Rightarrow> (Some (AttributeError ''object has no attribute strip''), w)))"

fun process_jobs :: "env \<Rightarrow> document list \<Rightarrow> world \<Rightarrow> py_error option \<times> world" where
  "process_jobs E [] w = (None, w)"
| "process_jobs E (job # rest) w =
     (case process_job E job w of
        (Some e, w') \<Rightarrow> (Some e, w')
      | (None, w') \<Rightarrow> process_jobs E rest w')"

text \<open>One turn of \<^verbatim>\<open>for company in ai_companies\<close> (lines 256 to 309).\<close>

definition process_company :: "env \<Rightarrow> document \<Rightarrow> world \<Rightarrow> py_error option \<times> world" where
  "process_company E company w =
     (case map_of company ''_id'' of
        None \<Rightarrow> (Some (KeyError ''_id''), w)
      | Some company_id \<Rightarrow>
          (case job_statuses E of
             None \<Rightarrow> (Some (AttributeError ''NoneType object has no attribute find''), w)
           | Some statuses \<Rightarrow>
               (case find_in E ''job-statuses'' statuses
                       [Field ''company_id'' [Equals company_id],
                        Field ''jobStatus'' [Equals (BStr ''Open'')]] w of
                  (Inl e, w1) \<Rightarrow> (Some e, w1)
                | (Inr [], w1) \<Rightarrow> (None, w1)
                | (Inr (open_status_doc # _), w1) \<Rightarrow>
                    (case map_of open_status_doc ''_id'' of
                       None \<Rightarrow> (Some (KeyError ''_id''), w1)
                     | Some open_status_id \<Rightarrow>
                         (case jobs E of
                            None \<Rightarrow>
                              (Some (AttributeError ''NoneType object has no attribute find''), w1)
                          | Some all_jobs \<Rightarrow>
                              (case find_in E ''jobs'' all_jobs
                                      [Field ''company_id'' [Equals company_id],
                                       Field ''status'' [Equals (BStr (py_str open_status_id))]]
                                      w1 of
                                 (Inl e, w2) \<Rightarrow> (Some e, w2)
                               | (Inr open_jobs, w2) \<Rightarrow> process_jobs E open_jobs w2))))))"

fun process_companies :: "env \<Rightarrow> document list \<Rightarrow> world \<Rightarrow> py_error option \<times> world" where
  "process_companies E [] w = (None, w)"
| "process_companies E (company # rest) w =
     (case process_company E company w of
        (Some e, w') \<Rightarrow> (Some e, w')
      | (None, w') \<Rightarrow> process_companies E rest w')"

text \<open>The entry point. Like the indexing agent it returns \<^verbatim>\<open>None\<close> on every path.\<close>

definition jd_matching_agent :: "env \<Rightarrow> world \<Rightarrow> (py_error + unit) \<times> world" where
  "jd_matching_agent E w =
     (case init_error E of
        Some m \<Rightarrow> (Inl (LibraryError m), w)
      | None \<Rightarrow>
          if \<not> mongo_configured E then (Inr (), w)
          else if \<not> qdrant_configured E then (Inr (), w)
          else if \<not> model_loaded E then (Inr (), w)
          else
            (case companies E of
               None \<Rightarrow> (Inr (), w)
             | Some all_companies \<Rightarrow>
                 (case find_in E ''companies'' all_companies
                         [Field ''aiFeaturesEnabled'' [Equals (BBool True)]] w of
                    (Inl e, w1) \<Rightarrow> (Inl e, w1)
                  | (Inr ai_companies, w1) \<Rightarrow>
                      if ai_companies = [] then (Inr (), w1)
                      else
                        (case process_companies E ai_companies w1 of
                           (Some e, w2) \<Rightarrow> (Inl e, w2)
                         | (None, w2) \<Rightarrow> (Inr (), w2)))))"

section \<open>The trigger: \<^verbatim>\<open>_run_agent_task\<close> of \<^verbatim>\<open>server.py\<close>\<close>

text \<open>
  The task the server runs in a background thread: the agents of the chosen mode
  inside \<^verbatim>\<open>try\<close>, \<^verbatim>\<open>except Exception as e: _last_error = str(e)\<close>, and a \<^verbatim>\<open>finally\<close>
  that clears the running flag. The result is the new \<^verbatim>\<open>_last_error\<close>, the new
  \<^verbatim>\<open>_agent_running\<close> and the world; \<open>None\<close> when the indexing loop never returns.
  The timestamp \<^verbatim>\<open>_last_run\<close> is left out.
\<close>

definition run_agent_task :: "env \<Rightarrow> string \<Rightarrow> world \<Rightarrow> (string option \<times> bool \<times> world) option" where
  "run_agent_task E agent_mode w =
     (case (if agent_mode \<in> {''index'', ''both''} then resume_indexing_agent E w
            else Some (Inr (), w)) of
        None \<Rightarrow> None
      | Some (Inl e, w1) \<Rightarrow> Some (Some (err_str e), False, w1)
      | Some (Inr _, w1) \<Rightarrow>
          (case (if agent_mode \<in> {''matching'', ''both''} then jd_matching_agent E w1
                 else (Inr (), w1)) of
             (Inl e, w2) \<Rightarrow> Some (Some (err_str e), False, w2)
           | (Inr _, w2) \<Rightarrow> Some (None, False, w2)))"

section \<open>Concrete collaborators for running the pipelines\<close>

text \<open>
  A small tag stripper standing in for the HTML parser on plain markup (tags closed,
  no entities, comments or scripts): the text nodes between the tags, joined by the
  separator. \<open>in_tag\<close> tells whether the scan is inside a tag, \<open>acc\<close> is the current
  text node, reversed.
\<close>

fun text_nodes :: "bool \<Rightarrow> string \<Rightarrow> string \<Rightarrow> string list" where
  "text_nodes in_tag acc [] = (if acc = [] then [] else [rev acc])"
| "text_nodes in_tag acc (c # cs) =
     (if in_tag then
        (if c = CHR ''>'' then text_nodes False [] cs else text_nodes True acc cs)
      else if c = CHR ''<'' then
        (if acc = [] then [] else [rev acc]) @ text_nodes True [] cs
      else text_nodes False (c # acc) cs)"

fun join_with :: "string \<Rightarrow> string list \<Rightarrow> string" where
  "join_with sep [] = []"
| "join_with sep [x] = x"
| "join_with sep (x # y # ys) = x @ sep @ join_with sep (y # ys)"

definition plain_get_text :: "string \<Rightarrow> string" where
  "plain_get_text raw_html = join_with '' '' (text_nodes False [] raw_html)"

text \<open>An environment with every collaborator configured and no fault: five stored
  files (a PDF with a text layer, a scanned one, one the PDF reader rejects, one with
  no text at all, a photo), and an embedding model that fails on one text.\<close>

definition demo_env :: env where
  "demo_env = \<lparr>
     init_error = None,
     mongo_configured = True,
     qdrant_configured = True,
     model_loaded = True,
     s3_get_object = Some (\<lambda>key.
        if key = ''cv/text.pdf'' then Inr ''PDF-with-text''
        else if key = ''cv/scan.pdf'' then Inr ''PDF-scanned''
        else if key = ''cv/broken.pdf'' then Inr ''PDF-broken''
        else if key = ''cv/blank.pdf'' then Inr ''PDF-blank''
        else if key = ''cv/photo.PNG'' then Inr ''PNG-photo''
        else Inl ''NoSuchKey''),
     image_open = (\<lambda>b.
        if b = ''PNG-photo'' then Inr ''photo'' else Inl ''cannot identify image file''),
     image_to_string = (\<lambda>i.
        if i = ''photo'' then Inr ''Asha Rao, welder''
        else if i = ''scan-1'' then Inr ''Ravi Iyer ''
        else if i = ''scan-2'' then Inr ''fitter''
        else Inr '' ''),
     fitz_open = (\<lambda>b.
        if b = ''PDF-with-text'' then Inr [''t1'', ''t2'']
        else if b = ''PDF-scanned'' then Inr [''s1'', ''s2'']
        else if b = ''PDF-blank'' then Inr [''s1'']
        else Inl ''cannot open broken document''),
     page_get_text = (\<lambda>p.
        if p = ''t1'' then Inr ''Meera Nair ''
        else if p = ''t2'' then Inr ''analyst''
        else Inr []),
     convert_from_bytes = (\<lambda>b.
        if b = ''PDF-scanned'' \<or> b = ''PDF-broken'' then Inr [''scan-1'', ''scan-2'']
        else if b = ''PDF-blank'' then Inr [''empty-1'']
        else Inl ''Unable to get page count''),
     encode = (\<lambda>t.
        if t = ''Asha Rao, welder'' then Inl ''out of memory''
        else Inr [real (length t), 1]),
     uuid5_dns = (\<lambda>s. ''uuid5-'' @ s),
     query_points = (\<lambda>v. Inr []),
     soup_get_text = plain_get_text,
     read_fault = (\<lambda>n. None),
     write_fault = (\<lambda>n. None),
     upsert_fault = (\<lambda>n. None),
     now = (\<lambda>n. ''1700000000.0''),
     batch_size = 10,
     companies = Some [],
     jobs = Some [],
     job_statuses = Some [],
     coll_get_id = None
   \<rparr>"

text \<open>Three application records waiting for indexing: one whose PDF has a text
  layer, one whose file yields no text, one photo whose text the model cannot embed.\<close>

definition app_meera :: document where
  "app_meera =
     [(''_id'', BObjectId ''a1''), (''jobID'', BObjectId ''j1''),
      (''resume'', BStr ''https://cv.s3.ap-south-1.amazonaws.com/cv/text.pdf''),
      (''resume_status'', BStr ''open''), (''rag_uploaded'', BBool False)]"

definition app_blank :: document where
  "app_blank =
     [(''_id'', BObjectId ''a2''), (''jobID'', BObjectId ''j1''),
      (''resume'', BStr ''https://cv.s3.ap-south-1.amazonaws.com/cv/blank.pdf''),
      (''resume_status'', BStr ''open'')]"

definition app_asha :: document where
  "app_asha =
     [(''_id'', BObjectId ''a3''), (''jobID'', BObjectId ''j2''),
      (''resume'', BStr ''https://cv.s3.ap-south-1.amazonaws.com/cv/photo.PNG''),
      (''resume_status'', BStr ''open''), (''rag_uploaded'', BStr ''False'')]"

definition demo_world :: world where
  "demo_world = \<lparr>applications = [app_meera, app_blank, app_asha], log = []\<rparr>"

text \<open>A record whose flag is stored as null.\<close>

definition app_null_flag :: document where
  "app_null_flag =
     [(''_id'', BObjectId ''a4''), (''jobID'', BObjectId ''j2''),
      (''resume'', BStr ''https://cv.s3.ap-south-1.amazonaws.com/cv/scan.pdf''),
      (''resume_status'', BStr ''open''), (''rag_uploaded'', BNull)]"

section \<open>The eligibility rule as the specification words it\<close>

text \<open>
  The specification's rule, for comparison with \<open>pending_query\<close>: the status equals
  \<^verbatim>\<open>open\<close>, the flag is falsy or absent (Python's truth value), and the resume
  reference is present and URL-shaped, read as a string that starts with \<^verbatim>\<open>http\<close>.
\<close>

definition spec_eligible :: "document \<Rightarrow> bool" where
  "spec_eligible d =
     (map_of d ''resume_status'' = Some (BStr ''open'') \<and>
      \<not> py_truthy (map_of d ''rag_uploaded'') \<and>
      (case map_of d ''resume'' of Some (BStr url) \<Rightarrow> prefix ''http'' url | _ \<Rightarrow> False))"

section \<open>Notions for stating the properties of the indexing loop\<close>

definition doc_id :: "document \<Rightarrow> bson option" where
  "doc_id d = map_of d ''_id''"


text \<open>A record the indexing pipeline has marked.\<close>

definition settled :: "document \<Rightarrow> bool" where
  "settled d = (map_of d ''resume_status'' = Some (BStr ''indexed'')
              \<or> map_of d ''resume_status'' = Some (BStr ''failed''))"


definition fetched_batch :: "env \<Rightarrow> world \<Rightarrow> document list" where
  "fetched_batch E w =
     cursor_limit (batch_size E) (filter (matches pending_query) (applications w))"

text \<open>An update is marking when it settles the record it is applied to and keeps its
  \<^verbatim>\<open>_id\<close>. A store evolves when each record keeps its \<^verbatim>\<open>_id\<close> and is either unchanged
  or settled.\<close>

definition marking :: "(string \<times> bson) list \<Rightarrow> bool" where
  "marking upd = (\<forall>d. settled (set_fields upd d) \<and> doc_id (set_fields upd d) = doc_id d)"

definition evolves :: "document list \<Rightarrow> document list \<Rightarrow> bool" where
  "evolves ds ds' =
     list_all2 (\<lambda>d d'. doc_id d' = doc_id d \<and> (d' = d \<or> settled d')) ds ds'"

text \<open>Events: an upsert; a store update that sets \<^verbatim>\<open>rag_uploaded\<close> to true. The
  predicate \<open>no_flag_before_upsert\<close> says of a sequence of events that no update sets
  the flag before the first upsert.\<close>

fun is_upsert :: "event \<Rightarrow> bool" where
  "is_upsert (Upsert _) = True"
| "is_upsert _ = False"

fun sets_flag :: "event \<Rightarrow> bool" where
  "sets_flag (UpdateOne q upd) = (map_of upd ''rag_uploaded'' = Some (BBool True))"
| "sets_flag _ = False"

fun no_flag_before_upsert :: "event list \<Rightarrow> bool" where
  "no_flag_before_upsert [] = True"
| "no_flag_before_upsert (ev # evs) =
     (if is_upsert ev then True else \<not> sets_flag ev \<and> no_flag_before_upsert evs)"

text \<open>The world after the two reads at the head of an iteration; an environment in
  which no store or index call ever raises.\<close>

definition after_reads :: "world \<Rightarrow> world" where
  "after_reads w =
     logged (Find ''applications'' pending_query) (logged (CountDocuments pending_query) w)"


section \<open>Notions for stating the properties of the matching pipeline\<close>

text \<open>The status write the loop of lines 298 to 306 issues for one result under a
  cutoff, if any: none for a result without a score or without a non-empty
  application id.\<close>

definition planned_update :: "env \<Rightarrow> real \<Rightarrow> scored_point \<Rightarrow> event option" where
  "planned_update E cutoff r =
     (case (map_of (case sp_payload r of None \<Rightarrow> [] | Some p \<Rightarrow> p) ''application_id'',
            sp_score r) of
        (Some aid, Some score) \<Rightarrow>
          if py_truthy (Some aid)
          then Some (UpdateOne (status_filter E aid) [(''resume_status'', BStr (decide cutoff score))])
          else None
      | _ \<Rightarrow> None)"

definition planned_writes :: "env \<Rightarrow> real \<Rightarrow> scored_point list \<Rightarrow> event list" where
  "planned_writes E cutoff rs = List.map_filter (planned_update E cutoff) rs"

text \<open>What a successful store update does to the collection.\<close>

fun apply_update :: "event \<Rightarrow> document list \<Rightarrow> document list" where
  "apply_update (UpdateOne q upd) ds = update_first q upd ds"
| "apply_update _ ds = ds"

text \<open>A result as the index returns it for an indexed resume.\<close>

definition hit :: "string \<Rightarrow> string \<Rightarrow> real \<Rightarrow> scored_point" where
  "hit application_id job_id score =
     \<lparr>sp_payload = Some [(''application_id'', BStr application_id), (''job_id'', BStr job_id)],
      sp_score = Some score\<rparr>"

text \<open>A company with AI features, its "Open" status, and four open jobs: one with a
  marked-up description, one with a plain one, one whose description is markup around
  a blank, one whose description is blank. The index answers every query with four
  results for the first job, two for the second (one without an application id) and
  one for the third.\<close>

definition company_acme :: document where
  "company_acme = [(''_id'', BObjectId ''c1''), (''name'', BStr ''Acme''),
                   (''aiFeaturesEnabled'', BBool True)]"

definition status_open :: document where
  "status_open = [(''_id'', BObjectId ''s1''), (''company_id'', BObjectId ''c1''),
                  (''jobStatus'', BStr ''Open'')]"

definition job_api :: document where
  "job_api = [(''_id'', BObjectId ''j1''), (''company_id'', BObjectId ''c1''),
              (''status'', BStr ''s1''), (''description'', BStr ''<p>Build <b>APIs</b></p>'')]"

definition job_weld :: document where
  "job_weld = [(''_id'', BObjectId ''j2''), (''company_id'', BObjectId ''c1''),
               (''status'', BStr ''s1''), (''description'', BStr ''Weld pipes'')]"

definition job_markup_only :: document where
  "job_markup_only = [(''_id'', BObjectId ''j3''), (''company_id'', BObjectId ''c1''),
                      (''status'', BStr ''s1''), (''description'', BStr ''<p> </p>'')]"

definition job_blank :: document where
  "job_blank = [(''_id'', BObjectId ''j4''), (''company_id'', BObjectId ''c1''),
                (''status'', BStr ''s1''), (''description'', BStr ''  '')]"

definition index_hits :: "scored_point list" where
  "index_hits =
     [hit ''a1'' ''j1'' 0.90, hit ''a5'' ''j2'' 0.50, hit ''a2'' ''j1'' 0.70,
      \<lparr>sp_payload = Some [(''job_id'', BStr ''j2'')], sp_score = Some 0.40\<rparr>,
      hit ''a3'' ''j1'' 0.60, hit ''a6'' ''j3'' 0.20, hit ''a4'' ''j1'' 0.30]"

definition match_env :: env where
  "match_env = demo_env\<lparr>
     query_points := (\<lambda>v. Inr index_hits),
     companies := Some [company_acme],
     job_statuses := Some [status_open],
     jobs := Some [job_api, job_weld, job_markup_only, job_blank]\<rparr>"

text \<open>The applications collection at matching time, keyed by string ids.\<close>

definition indexed_app :: "string \<Rightarrow> string \<Rightarrow> document" where
  "indexed_app application_id job_id =
     [(''_id'', BStr application_id), (''jobID'', BStr job_id),
      (''resume_status'', BStr ''indexed''), (''rag_uploaded'', BBool True)]"

definition match_world :: world where
  "match_world =
     \<lparr>applications = [indexed_app ''a1'' ''j1'', indexed_app ''a2'' ''j1'',
                      indexed_app ''a3'' ''j1'', indexed_app ''a4'' ''j1'',
                      indexed_app ''a5'' ''j2'', indexed_app ''a6'' ''j3''],
      log = []\<rparr>"

text \<open>The same environment with a store whose second call fails.\<close>

definition flaky_env :: env where
  "flaky_env = match_env\<lparr>
     write_fault := (\<lambda>n. if n = 1 then Some ''connection reset'' else None)\<rparr>"



section \<open>Properties of the key derivation\<close>

lemma occurs_in_iff: "occurs_in m s \<longleftrightarrow> (\<exists>a b. s = a @ m @ b)"
proof (induction s)
  case Nil
  then show ?case by auto
next
  case (Cons c cs)
  show ?case
  proof
    assume "occurs_in m (c # cs)"
    then consider "prefix m (c # cs)" | "occurs_in m cs" by auto
    then show "\<exists>a b. c # cs = a @ m @ b"
    proof cases
      case 1
      then obtain b where "c # cs = m @ b" by (auto simp: prefix_def)
      then have "c # cs = [] @ m @ b" by simp
      then show ?thesis by blast
    next
      case 2
      with Cons obtain a b where "cs = a @ m @ b" by blast
      then have "c # cs = (c # a) @ m @ b" by simp
      then show ?thesis by blast
    qed
  next
    assume "\<exists>a b. c # cs = a @ m @ b"
    then obtain a b where ab: "c # cs = a @ m @ b" by blast
    show "occurs_in m (c # cs)"
    proof (cases a)
      case Nil
      with ab have "prefix m (c # cs)" by (simp add: prefix_def)
      then show ?thesis by simp
    next
      case (Cons x a')
      with ab have "cs = a' @ m @ b" by simp
      with Cons.IH have "occurs_in m cs" by blast
      then show ?thesis by simp
    qed
  qed
qed

lemma split_from_ne: "split_from sep acc s \<noteq> []"
  by (induction sep acc s rule: split_from.induct) auto

lemma split_from_no_occ:
  "\<not> occurs_in sep s \<Longrightarrow> split_from sep acc s = [rev acc @ s]"
  by (induction sep acc s rule: split_from.induct) auto

lemma border_free_marker: "border_free amazonaws_marker"
  unfolding border_free_def amazonaws_marker_def
  by code_simp

lemma border_free_overlap:
  assumes bf: "border_free sep" and eq: "sep @ rest = pre @ sep @ suf" and ne: "pre \<noteq> []"
  shows "length sep \<le> length pre"
proof (rule ccontr)
  assume "\<not> length sep \<le> length pre"
  then have lt: "length pre < length sep" by simp
  define k where "k = length pre"
  have kpos: "0 < k" using ne by (simp add: k_def)
  have "drop k (sep @ rest) = drop k (pre @ sep @ suf)" using eq by simp
  then have d: "drop k sep @ rest = sep @ suf" using lt by (simp add: k_def)
  have "prefix (drop k sep) (sep @ suf)" using d by (metis prefixI)
  moreover have "length (drop k sep) \<le> length sep" by simp
  ultimately have "prefix (drop k sep) sep"
    by (metis prefix_length_prefix prefixI)
  moreover have "k \<in> set [1..<length sep]" using kpos lt by (cases pre) (auto simp: k_def)
  ultimately show False using bf by (auto simp: border_free_def list_all_iff)
qed

lemma split_from_last:
  assumes "border_free sep" and "s = pre @ sep @ suf" and "\<not> occurs_in sep suf"
  shows "last (split_from sep acc s) = suf"
  using assms
proof (induction sep acc s arbitrary: pre rule: split_from.induct)
  case (1 sep acc)
  then show ?case by (simp add: border_free_def)
next
  case (2 sep acc c cs)
  have sep_ne: "sep \<noteq> []" using 2(3) by (simp add: border_free_def)
  show ?case
  proof (cases "prefix sep (c # cs)")
    case True
    define rest where "rest = drop (length sep - 1) cs"
    have "drop (length sep) (c # cs) = rest"
      using sep_ne by (cases sep) (simp_all add: rest_def)
    with True have cs_eq: "c # cs = sep @ rest"
      by (metis append_eq_conv_conj prefix_def)
    have res: "last (split_from sep acc (c # cs)) = last (split_from sep [] rest)"
      using True by (simp add: rest_def split_from_ne)
    show ?thesis
    proof (cases pre)
      case Nil
      with 2(4) cs_eq have "rest = suf" by simp
      with res 2(5) show ?thesis by (simp add: split_from_no_occ)
    next
      case (Cons x xs)
      have both: "sep @ rest = pre @ sep @ suf" using cs_eq 2(4) by simp
      moreover have "pre \<noteq> []" using Cons by simp
      ultimately have le: "length sep \<le> length pre"
        using border_free_overlap[OF 2(3)] by blast
      from both le obtain pre' where "pre = sep @ pre'"
        by (metis append_eq_append_conv_if append_take_drop_id)
      with both have "rest = pre' @ sep @ suf" by simp
      from 2(1)[OF True 2(3) this[unfolded rest_def] 2(5)] res show ?thesis
        by (simp add: rest_def)
    qed
  next
    case False
    then have "pre \<noteq> []" using 2(4) by (cases pre) (auto simp: prefix_def)
    then obtain pre' where "pre = c # pre'" and "cs = pre' @ sep @ suf"
      using 2(4) by (cases pre) auto
    from 2(2)[OF False 2(3) this(2) 2(5)] False show ?thesis by simp
  qed
qed

lemma index_last_eq: "xs \<noteq> [] \<Longrightarrow> index_last xs = Inr (last xs)"
  by (cases xs rule: rev_cases) (simp_all add: index_last_def)

lemma extract_s3_key_last:
  "extract_s3_key url = Inr (last (split_from amazonaws_marker [] url))"
proof -
  have "amazonaws_marker \<noteq> []" by (simp add: amazonaws_marker_def)
  then show ?thesis
    by (simp add: extract_s3_key_def str_split_def index_last_eq split_from_ne)
qed

text \<open>
  Claim C10. \<^verbatim>\<open>extract_s3_key\<close> never fails. When the marker \<^verbatim>\<open>.amazonaws.com/\<close> occurs in
  the input, the result is what follows its last occurrence: for every way of writing
  the input as \<open>pre @ marker @ suf\<close> with no marker in \<open>suf\<close>, the result is \<open>suf\<close>.
  When the marker does not occur, the result is the input itself, so a non-empty
  marker-free input never gives an empty key.
\<close>

theorem extract_s3_key_after_last_marker:
  "(\<exists>key. extract_s3_key url = Inr key) \<and>
   (\<forall>pre suf. url = pre @ amazonaws_marker @ suf \<and> \<not> occurs_in amazonaws_marker suf
        \<longrightarrow> extract_s3_key url = Inr suf) \<and>
   (\<not> occurs_in amazonaws_marker url \<longrightarrow> extract_s3_key url = Inr url) \<and>
   (\<not> occurs_in amazonaws_marker url \<and> url \<noteq> [] \<longrightarrow> extract_s3_key url \<noteq> Inr [])"
proof (intro conjI allI impI)
  show "\<exists>key. extract_s3_key url = Inr key"
    by (simp add: extract_s3_key_last)
next
  fix pre suf
  assume "url = pre @ amazonaws_marker @ suf \<and> \<not> occurs_in amazonaws_marker suf"
  then show "extract_s3_key url = Inr suf"
    using split_from_last[OF border_free_marker, of url pre suf "[]"]
    by (simp add: extract_s3_key_last)
next
  assume "\<not> occurs_in amazonaws_marker url"
  then show "extract_s3_key url = Inr url"
    by (simp add: extract_s3_key_last split_from_no_occ)
next
  assume "\<not> occurs_in amazonaws_marker url \<and> url \<noteq> []"
  then show "extract_s3_key url \<noteq> Inr []"
    by (simp add: extract_s3_key_last split_from_no_occ)
qed

theorem extract_s3_key_after_last_marker_witness:
  "extract_s3_key ''https://cv.s3.ap-south-1.amazonaws.com/a/.amazonaws.com/r.pdf'' = Inr ''r.pdf''
   \<and> \<not> occurs_in amazonaws_marker ''r.pdf''
   \<and> \<not> occurs_in amazonaws_marker ''uploads/r.pdf''
   \<and> extract_s3_key ''uploads/r.pdf'' = Inr ''uploads/r.pdf''
   \<and> extract_s3_key ''uploads/r.pdf'' \<noteq> Inr []"
proof -
  have no1: "\<not> occurs_in amazonaws_marker ''r.pdf''"
    by (simp add: amazonaws_marker_def)
  have no2: "\<not> occurs_in amazonaws_marker ''uploads/r.pdf''"
    by (simp add: amazonaws_marker_def)
  have split: "''https://cv.s3.ap-south-1.amazonaws.com/a/.amazonaws.com/r.pdf''
      = ''https://cv.s3.ap-south-1.amazonaws.com/a/'' @ amazonaws_marker @ ''r.pdf''"
    by (simp add: amazonaws_marker_def)
  from extract_s3_key_after_last_marker
    [of "''https://cv.s3.ap-south-1.amazonaws.com/a/.amazonaws.com/r.pdf''"]
  have a: "extract_s3_key ''https://cv.s3.ap-south-1.amazonaws.com/a/.amazonaws.com/r.pdf''
      = Inr ''r.pdf''"
    using split no1 by blast
  from extract_s3_key_after_last_marker [of "''uploads/r.pdf''"] no2
  have b: "extract_s3_key ''uploads/r.pdf'' = Inr ''uploads/r.pdf''
      \<and> extract_s3_key ''uploads/r.pdf'' \<noteq> Inr []"
    by blast
  from a b no1 no2 show ?thesis by blast
qed

section \<open>Properties of the extractor\<close>

text \<open>An exception that leaves the text accumulation comes from a library.\<close>

lemma ocr_images_error:
  "ocr_images E imgs t = (t', Some e) \<Longrightarrow> \<exists>m. e = LibraryError m"
  by (induction imgs arbitrary: t) (auto split: sum.splits)

lemma rasterize_and_ocr_error:
  "rasterize_and_ocr E fb t = (t', Some e) \<Longrightarrow> \<exists>m. e = LibraryError m"
  by (auto simp: rasterize_and_ocr_def split: sum.splits dest: ocr_images_error)

lemma accumulate_text_error:
  "accumulate_text E key fb = Inl e \<Longrightarrow> \<exists>m. e = LibraryError m"
  by (auto simp: accumulate_text_def split: if_splits sum.splits prod.splits option.splits
      dest: rasterize_and_ocr_error)

text \<open>
  Claim C3. \<^verbatim>\<open>extract_text_from_s3\<close> raises \<^verbatim>\<open>ValueError("No text extracted")\<close> exactly
  when the object was fetched and the text accumulated after all fallbacks is empty
  or whitespace-only. For a key with an image extension the accumulated text is the
  OCR of the decoded image. For any other key: a non-blank text layer is the result;
  a blank text layer sends the bytes through rasterize-and-OCR; an exception of the
  structured extraction does the same, continuing from the text read so far; and an
  exception that leaves the accumulation is one the rasterize-and-OCR path raised.
\<close>

theorem extractor_terminal_failure_and_fallbacks:
  "(extract_text_from_s3 E url = Inl (ValueError ''No text extracted'') \<longleftrightarrow>
      (\<exists>get_object key file_bytes text.
          s3_get_object E = Some get_object \<and> extract_s3_key url = Inr key \<and>
          get_object key = Inr file_bytes \<and>
          accumulate_text E key file_bytes = Inr text \<and> py_strip text = []))
   \<and> (is_image_key key \<longrightarrow>
        accumulate_text E key fb =
          (case image_open E fb of
             Inl m \<Rightarrow> Inl (LibraryError m)
           | Inr img \<Rightarrow>
               (case image_to_string E img of
                  Inl m \<Rightarrow> Inl (LibraryError m)
                | Inr t \<Rightarrow> Inr t)))
   \<and> (\<not> is_image_key key \<longrightarrow>
        (\<forall>t. structured_text E fb = (t, None) \<and> py_strip t \<noteq> []
            \<longrightarrow> accumulate_text E key fb = Inr t)
      \<and> (\<forall>t t'. structured_text E fb = (t, None) \<and> py_strip t = [] \<and>
                 rasterize_and_ocr E fb t = (t', None)
            \<longrightarrow> accumulate_text E key fb = Inr t')
      \<and> (\<forall>t e t'. structured_text E fb = (t, Some e) \<and>
                 rasterize_and_ocr E fb t = (t', None)
            \<longrightarrow> accumulate_text E key fb = Inr t')
      \<and> (\<forall>e. accumulate_text E key fb = Inl e
            \<longrightarrow> (\<exists>t t'. rasterize_and_ocr E fb t = (t', Some e))))"
proof (intro conjI impI allI)
  show "extract_text_from_s3 E url = Inl (ValueError ''No text extracted'') \<longleftrightarrow>
      (\<exists>get_object key file_bytes text.
          s3_get_object E = Some get_object \<and> extract_s3_key url = Inr key \<and>
          get_object key = Inr file_bytes \<and>
          accumulate_text E key file_bytes = Inr text \<and> py_strip text = [])"
    by (auto simp: extract_text_from_s3_def extract_s3_key_last
        split: option.splits sum.splits dest: accumulate_text_error)
next
  assume "is_image_key key"
  then show "accumulate_text E key fb =
          (case image_open E fb of
             Inl m \<Rightarrow> Inl (LibraryError m)
           | Inr img \<Rightarrow>
               (case image_to_string E img of
                  Inl m \<Rightarrow> Inl (LibraryError m)
                | Inr t \<Rightarrow> Inr t))"
    by (simp add: accumulate_text_def)
next
  fix t assume "\<not> is_image_key key" "structured_text E fb = (t, None) \<and> py_strip t \<noteq> []"
  then show "accumulate_text E key fb = Inr t"
    by (simp add: accumulate_text_def pdf_try_body_def)
next
  fix t t' assume "\<not> is_image_key key"
    "structured_text E fb = (t, None) \<and> py_strip t = [] \<and> rasterize_and_ocr E fb t = (t', None)"
  then show "accumulate_text E key fb = Inr t'"
    by (simp add: accumulate_text_def pdf_try_body_def)
next
  fix t e t' assume "\<not> is_image_key key"
    "structured_text E fb = (t, Some e) \<and> rasterize_and_ocr E fb t = (t', None)"
  then show "accumulate_text E key fb = Inr t'"
    by (simp add: accumulate_text_def pdf_try_body_def)
next
  fix e assume "\<not> is_image_key key" "accumulate_text E key fb = Inl e"
  then show "\<exists>t t'. rasterize_and_ocr E fb t = (t', Some e)"
    by (auto simp: accumulate_text_def split: prod.splits option.splits)
qed

theorem extractor_terminal_failure_and_fallbacks_witness:
  "extract_text_from_s3 demo_env ''https://b.s3.x.amazonaws.com/cv/blank.pdf''
      = Inl (ValueError ''No text extracted'')
   \<and> accumulate_text demo_env ''cv/blank.pdf'' ''PDF-blank'' = Inr '' ''
   \<and> py_strip '' '' = []
   \<and> is_image_key ''cv/photo.PNG''
   \<and> accumulate_text demo_env ''cv/photo.PNG'' ''PNG-photo'' = Inr ''Asha Rao, welder''
   \<and> \<not> is_image_key ''cv/text.pdf''
   \<and> structured_text demo_env ''PDF-with-text'' = (''Meera Nair analyst'', None)
   \<and> accumulate_text demo_env ''cv/text.pdf'' ''PDF-with-text'' = Inr ''Meera Nair analyst''
   \<and> structured_text demo_env ''PDF-scanned'' = ([], None)
   \<and> rasterize_and_ocr demo_env ''PDF-scanned'' [] = (''Ravi Iyer fitter'', None)
   \<and> accumulate_text demo_env ''cv/scan.pdf'' ''PDF-scanned'' = Inr ''Ravi Iyer fitter''
   \<and> structured_text demo_env ''PDF-broken''
        = ([], Some (LibraryError ''cannot open broken document''))
   \<and> accumulate_text demo_env ''cv/broken.pdf'' ''PDF-broken'' = Inr ''Ravi Iyer fitter''"
proof -
  have s3: "s3_get_object demo_env = Some (\<lambda>key.
        if key = ''cv/text.pdf'' then Inr ''PDF-with-text''
        else if key = ''cv/scan.pdf'' then Inr ''PDF-scanned''
        else if key = ''cv/broken.pdf'' then Inr ''PDF-broken''
        else if key = ''cv/blank.pdf'' then Inr ''PDF-blank''
        else if key = ''cv/photo.PNG'' then Inr ''PNG-photo''
        else Inl ''NoSuchKey'')"
    by (simp add: demo_env_def)
  have key: "extract_s3_key ''https://b.s3.x.amazonaws.com/cv/blank.pdf'' = Inr ''cv/blank.pdf''"
    by code_simp
  have blank: "accumulate_text demo_env ''cv/blank.pdf'' ''PDF-blank'' = Inr '' ''"
    by code_simp
  have strip: "py_strip '' '' = []" by code_simp
  have img: "is_image_key ''cv/photo.PNG''" by code_simp
  have pdf: "\<not> is_image_key ''cv/text.pdf''" by code_simp
  have st1: "structured_text demo_env ''PDF-with-text'' = (''Meera Nair analyst'', None)"
    by code_simp
  have ne1: "py_strip ''Meera Nair analyst'' \<noteq> []" by code_simp
  have st2: "structured_text demo_env ''PDF-scanned'' = ([], None)" by code_simp
  have e2: "py_strip [] = []" by code_simp
  have ocr2: "rasterize_and_ocr demo_env ''PDF-scanned'' [] = (''Ravi Iyer fitter'', None)"
    by code_simp
  have st3: "structured_text demo_env ''PDF-broken''
        = ([], Some (LibraryError ''cannot open broken document''))"
    by code_simp
  have ocr3: "rasterize_and_ocr demo_env ''PDF-broken'' [] = (''Ravi Iyer fitter'', None)"
    by code_simp
  have io: "image_open demo_env ''PNG-photo'' = Inr ''photo''" by code_simp
  have its: "image_to_string demo_env ''photo'' = Inr ''Asha Rao, welder''" by code_simp
  note T = extractor_terminal_failure_and_fallbacks
  have a: "extract_text_from_s3 demo_env ''https://b.s3.x.amazonaws.com/cv/blank.pdf''
      = Inl (ValueError ''No text extracted'')"
    using T [of demo_env "''https://b.s3.x.amazonaws.com/cv/blank.pdf''" "''cv/blank.pdf''" "''PDF-blank''"]
      s3 key blank strip by simp
  have b: "accumulate_text demo_env ''cv/photo.PNG'' ''PNG-photo'' = Inr ''Asha Rao, welder''"
    using T [of demo_env "[]" "''cv/photo.PNG''" "''PNG-photo''"] img io its by simp
  have c: "accumulate_text demo_env ''cv/text.pdf'' ''PDF-with-text'' = Inr ''Meera Nair analyst''"
    using T [of demo_env "[]" "''cv/text.pdf''" "''PDF-with-text''"] pdf st1 ne1 by blast
  have pdf2: "\<not> is_image_key ''cv/scan.pdf''" by code_simp
  have d: "accumulate_text demo_env ''cv/scan.pdf'' ''PDF-scanned'' = Inr ''Ravi Iyer fitter''"
    using T [of demo_env "[]" "''cv/scan.pdf''" "''PDF-scanned''"] pdf2 st2 e2 ocr2 by blast
  have pdf3: "\<not> is_image_key ''cv/broken.pdf''" by code_simp
  have e: "accumulate_text demo_env ''cv/broken.pdf'' ''PDF-broken'' = Inr ''Ravi Iyer fitter''"
    using T [of demo_env "[]" "''cv/broken.pdf''" "''PDF-broken''"] pdf3 st3 ocr3 by blast
  from a b c d e blank strip img pdf st1 st2 ocr2 st3 show ?thesis by blast
qed

section \<open>Properties of the indexing pipeline\<close>

subsection \<open>The points built for a batch\<close>

lemma index_try_body_points:
  assumes "index_try_body E app oid app_id job_id points w = (err, points', w')"
  shows "points' = points \<or>
    (\<exists>text embedding. extract_resume E app = Inr text \<and> encode E text = Inr embedding \<and>
       points' = points @ [build_point E app_id job_id text embedding])"
  using assms
  by (auto simp: index_try_body_def model_encode_def Let_def split: sum.splits prod.splits)

lemma index_try_body_success:
  assumes "index_try_body E app oid app_id job_id points w = (None, points', w')"
  shows "\<exists>text embedding. extract_resume E app = Inr text \<and> encode E text = Inr embedding \<and>
       points' = points @ [build_point E app_id job_id text embedding]"
  using assms
  by (auto simp: index_try_body_def model_encode_def Let_def split: sum.splits prod.splits)

lemma process_app_points:
  assumes "process_app E app points w = (err, points', w')"
  shows "points' = points \<or>
    (\<exists>text embedding app_id job_id. extract_resume E app = Inr text \<and>
       encode E text = Inr embedding \<and>
       points' = points @ [build_point E app_id job_id text embedding])"
  using assms
  apply (auto simp: process_app_def Let_def split: option.splits prod.splits)
  using index_try_body_points apply blast+
  done

lemma process_batch_points:
  assumes "process_batch E rest points w = (err, points', w')"
    and "set rest \<subseteq> set batch"
    and "\<forall>p\<in>set points. \<exists>app\<in>set batch. \<exists>text.
          extract_resume E app = Inr text \<and> encode E text = Inr (vector p) \<and>
          map_of (payload p) ''resume_text'' = Some (BStr (take 1500 text))"
  shows "\<forall>p\<in>set points'. \<exists>app\<in>set batch. \<exists>text.
          extract_resume E app = Inr text \<and> encode E text = Inr (vector p) \<and>
          map_of (payload p) ''resume_text'' = Some (BStr (take 1500 text))"
  using assms
proof (induction rest arbitrary: points w)
  case Nil
  then show ?case by simp
next
  case (Cons app rest)
  obtain e1 pts1 w1 where pa: "process_app E app points w = (e1, pts1, w1)"
    by (metis prod_cases3)
  have inv1: "\<forall>p\<in>set pts1. \<exists>app\<in>set batch. \<exists>text.
          extract_resume E app = Inr text \<and> encode E text = Inr (vector p) \<and>
          map_of (payload p) ''resume_text'' = Some (BStr (take 1500 text))"
  proof -
    from process_app_points[OF pa] consider (same) "pts1 = points"
      | (more) t embedding app_id job_id where "extract_resume E app = Inr t"
          "encode E t = Inr embedding"
          "pts1 = points @ [build_point E app_id job_id t embedding]"
      by blast
    then show ?thesis
    proof cases
      case same
      with Cons.prems(3) show ?thesis by simp
    next
      case more
      have "app \<in> set batch" using Cons.prems(2) by simp
      with more Cons.prems(3) show ?thesis
        by (auto simp: build_point_def)
    qed
  qed
  show ?case
  proof (cases e1)
    case None
    with pa Cons.prems(1) have "process_batch E rest pts1 w1 = (err, points', w')" by simp
    from Cons.IH[OF this _ inv1] Cons.prems(2) show ?thesis by simp
  next
    case (Some e)
    with pa Cons.prems(1) have "points' = pts1" by simp
    with inv1 show ?thesis by simp
  qed
qed

text \<open>
  Claim C9. When the \<^verbatim>\<open>try\<close> body of a record completes, exactly one point was
  appended for it: its vector is the embedding of the whole extracted text (the text
  passed to \<^verbatim>\<open>model.encode\<close>, as the log shows), and its payload's \<^verbatim>\<open>resume_text\<close> is
  the first 1500 characters of that text, a prefix of it. The same holds for every
  point a batch produces.
\<close>

theorem indexed_point_snippet_and_vector:
  "(index_try_body E app oid app_id job_id pts w = (None, pts', w') \<longrightarrow>
      (\<exists>text embedding p.
          extract_resume E app = Inr text \<and> encode E text = Inr embedding \<and>
          pts' = pts @ [p] \<and> vector p = embedding \<and>
          map_of (payload p) ''resume_text'' = Some (BStr (take 1500 text)) \<and>
          prefix (take 1500 text) text \<and> length (take 1500 text) \<le> 1500 \<and>
          Encode text \<in> set (log w')))
   \<and> (process_batch E batch [] v = (err, points, v') \<longrightarrow>
      (\<forall>p\<in>set points. \<exists>app\<in>set batch. \<exists>text.
          extract_resume E app = Inr text \<and> encode E text = Inr (vector p) \<and>
          map_of (payload p) ''resume_text'' = Some (BStr (take 1500 text))))"
proof (intro conjI impI)
  assume a: "index_try_body E app oid app_id job_id pts w = (None, pts', w')"
  then obtain t embedding where te: "extract_resume E app = Inr t"
      "encode E t = Inr embedding"
      "pts' = pts @ [build_point E app_id job_id t embedding]"
    using index_try_body_success by blast
  have lg: "Encode t \<in> set (log w')"
    using a te(1,2)
    by (auto simp: index_try_body_def model_encode_def update_one_def logged_def Let_def
        split: option.splits)
  have "prefix (take 1500 t) t" by (simp add: take_is_prefix)
  with te lg show "\<exists>text embedding p.
          extract_resume E app = Inr text \<and> encode E text = Inr embedding \<and>
          pts' = pts @ [p] \<and> vector p = embedding \<and>
          map_of (payload p) ''resume_text'' = Some (BStr (take 1500 text)) \<and>
          prefix (take 1500 text) text \<and> length (take 1500 text) \<le> 1500 \<and>
          Encode text \<in> set (log w')"
    by (auto simp: build_point_def)
next
  assume "process_batch E batch [] v = (err, points, v')"
  from process_batch_points[OF this, of batch] show "\<forall>p\<in>set points. \<exists>app\<in>set batch. \<exists>text.
          extract_resume E app = Inr text \<and> encode E text = Inr (vector p) \<and>
          map_of (payload p) ''resume_text'' = Some (BStr (take 1500 text))"
    by simp
qed




theorem indexed_point_snippet_and_vector_witness:
  "fst (index_try_body demo_env app_meera (BObjectId ''a1'') ''a1'' ''j1'' [] demo_world) = None
   \<and> (\<exists>t embedding p.
          extract_resume demo_env app_meera = Inr t \<and> encode demo_env t = Inr embedding \<and>
          fst (snd (index_try_body demo_env app_meera (BObjectId ''a1'') ''a1'' ''j1'' []
                      demo_world)) = [p] \<and>
          vector p = embedding \<and>
          map_of (payload p) ''resume_text'' = Some (BStr (take 1500 t)))
   \<and> fst (snd (process_batch demo_env [app_meera, app_blank, app_asha] [] demo_world))
        = [\<lparr>point_id = ''uuid5-a1'', vector = [18, 1],
            payload = [(''application_id'', BStr ''a1''), (''job_id'', BStr ''j1''),
                       (''resume_text'', BStr ''Meera Nair analyst'')]\<rparr>]
   \<and> (\<exists>app t. app \<in> set [app_meera, app_blank, app_asha] \<and>
          extract_resume demo_env app = Inr t \<and> encode demo_env t = Inr [18, 1] \<and>
          ''Meera Nair analyst'' = take 1500 t)"
proof -
  obtain e1 pts1 w1 where r1:
    "index_try_body demo_env app_meera (BObjectId ''a1'') ''a1'' ''j1'' [] demo_world
       = (e1, pts1, w1)"
    by (metis prod_cases3)
  have e1: "fst (index_try_body demo_env app_meera (BObjectId ''a1'') ''a1'' ''j1'' []
      demo_world) = None"
    by code_simp
  with r1 have r1': "index_try_body demo_env app_meera (BObjectId ''a1'') ''a1'' ''j1'' []
      demo_world = (None, pts1, w1)"
    by simp
  obtain e2 pts2 w2 where r2:
    "process_batch demo_env [app_meera, app_blank, app_asha] [] demo_world = (e2, pts2, w2)"
    by (metis prod_cases3)
  have p2: "fst (snd (process_batch demo_env [app_meera, app_blank, app_asha] [] demo_world))
        = [\<lparr>point_id = ''uuid5-a1'', vector = [18, 1],
            payload = [(''application_id'', BStr ''a1''), (''job_id'', BStr ''j1''),
                       (''resume_text'', BStr ''Meera Nair analyst'')]\<rparr>]"
    by code_simp
  note T = indexed_point_snippet_and_vector
    [of demo_env app_meera "BObjectId ''a1''" "''a1''" "''j1''" "[]" demo_world pts1 w1
        "[app_meera, app_blank, app_asha]" demo_world e2 pts2 w2]
  from T r1' have a: "\<exists>t embedding p.
          extract_resume demo_env app_meera = Inr t \<and> encode demo_env t = Inr embedding \<and>
          pts1 = [p] \<and> vector p = embedding \<and>
          map_of (payload p) ''resume_text'' = Some (BStr (take 1500 t))"
    by auto
  from T r2 p2 have b: "\<exists>app t. app \<in> set [app_meera, app_blank, app_asha] \<and>
          extract_resume demo_env app = Inr t \<and> encode demo_env t = Inr [18, 1] \<and>
          ''Meera Nair analyst'' = take 1500 t"
    by (auto simp: Bex_def)
  from a b e1 p2 r1 show ?thesis by simp
qed

subsection \<open>The eligibility filter\<close>

text \<open>
  The filter and the rule "falsy or absent" differ in both directions: a record whose
  flag is the string \<^verbatim>\<open>"False"\<close> (a true value in Python) is selected, and a record
  whose flag is null (a false value) is not.
\<close>

theorem query_differs_from_falsy_or_absent:
  "matches pending_query app_asha \<and> \<not> spec_eligible app_asha \<and>
   spec_eligible app_null_flag \<and> \<not> matches pending_query app_null_flag"
  by code_simp

lemma matches_pending_query_iff:
  "matches pending_query d \<longleftrightarrow>
     map_of d ''resume_status'' = Some (BStr ''open'') \<and>
     (\<exists>url. map_of d ''resume'' = Some (BStr url) \<and> prefix ''http'' url) \<and>
     map_of d ''rag_uploaded'' \<in> {None, Some (BBool False), Some (BStr ''False'')}"
  by (auto simp: matches_def pending_query_def split: option.splits bson.splits)

lemma cursor_limit_subset: "set (cursor_limit n xs) \<subseteq> set xs"
  unfolding cursor_limit_def by (simp add: set_take_subset)

lemma find_batch_result:
  "find_batch E q w = (Inr batch, w') \<Longrightarrow>
     batch = cursor_limit (batch_size E) (filter (matches q) (applications w))"
  unfolding find_batch_def by (cases "raised (read_fault E) w") simp_all


text \<open>
  Claim C5, amended. A record is selected by the indexing filter exactly when its
  status is the string \<^verbatim>\<open>open\<close>, its resume is a string that starts with \<^verbatim>\<open>http\<close>,
  and its flag is absent, the boolean false, or the string \<^verbatim>\<open>"False"\<close>. Every record
  of a fetched batch is a stored record that satisfies the filter.
\<close>

theorem pending_query_selects:
  "(matches pending_query d \<longleftrightarrow>
      map_of d ''resume_status'' = Some (BStr ''open'') \<and>
      (\<exists>url. map_of d ''resume'' = Some (BStr url) \<and> prefix ''http'' url) \<and>
      map_of d ''rag_uploaded'' \<in> {None, Some (BBool False), Some (BStr ''False'')})
   \<and> (find_batch E pending_query w = (Inr batch, w') \<longrightarrow>
      (\<forall>a\<in>set batch. a \<in> set (applications w) \<and> matches pending_query a))"
proof (intro conjI impI ballI)
  show "matches pending_query d \<longleftrightarrow>
      map_of d ''resume_status'' = Some (BStr ''open'') \<and>
      (\<exists>url. map_of d ''resume'' = Some (BStr url) \<and> prefix ''http'' url) \<and>
      map_of d ''rag_uploaded'' \<in> {None, Some (BBool False), Some (BStr ''False'')}"
    by (rule matches_pending_query_iff)
next
  fix a assume fb: "find_batch E pending_query w = (Inr batch, w')" and a: "a \<in> set batch"
  have "set batch \<subseteq> set (filter (matches pending_query) (applications w))"
    unfolding find_batch_result[OF fb] by (rule cursor_limit_subset)
  with a have "a \<in> set (filter (matches pending_query) (applications w))"
    by (rule rev_subsetD)
  then show "a \<in> set (applications w)" and "matches pending_query a" by simp_all
qed


theorem pending_query_selects_witness:
  "matches pending_query app_asha
   \<and> map_of app_asha ''rag_uploaded'' = Some (BStr ''False'')
   \<and> fst (find_batch demo_env pending_query
        (demo_world\<lparr>applications := [app_meera, app_null_flag, app_asha]\<rparr>))
       = Inr [app_meera, app_asha]
   \<and> matches pending_query app_meera"
proof -
  have st: "map_of app_asha ''resume_status'' = Some (BStr ''open'')" by code_simp
  have url: "map_of app_asha ''resume''
      = Some (BStr ''https://cv.s3.ap-south-1.amazonaws.com/cv/photo.PNG'')
    \<and> prefix ''http'' ''https://cv.s3.ap-south-1.amazonaws.com/cv/photo.PNG''"
    by code_simp
  have flag: "map_of app_asha ''rag_uploaded'' = Some (BStr ''False'')" by code_simp
  obtain r w' where fb: "find_batch demo_env pending_query
        (demo_world\<lparr>applications := [app_meera, app_null_flag, app_asha]\<rparr>) = (r, w')"
    by (metis surj_pair)
  have r: "fst (find_batch demo_env pending_query
        (demo_world\<lparr>applications := [app_meera, app_null_flag, app_asha]\<rparr>))
       = Inr [app_meera, app_asha]"
    by code_simp
  with fb have fb': "find_batch demo_env pending_query
        (demo_world\<lparr>applications := [app_meera, app_null_flag, app_asha]\<rparr>)
       = (Inr [app_meera, app_asha], w')"
    by simp
  note T = pending_query_selects [of app_asha demo_env
      "demo_world\<lparr>applications := [app_meera, app_null_flag, app_asha]\<rparr>"
      "[app_meera, app_asha]" w']
  from T have iff: "matches pending_query app_asha \<longleftrightarrow>
      map_of app_asha ''resume_status'' = Some (BStr ''open'') \<and>
      (\<exists>url. map_of app_asha ''resume'' = Some (BStr url) \<and> prefix ''http'' url) \<and>
      map_of app_asha ''rag_uploaded'' \<in> {None, Some (BBool False), Some (BStr ''False'')}"
    by (rule conjunct1)
  have a: "matches pending_query app_asha"
    unfolding iff using st url flag by simp
  from T fb' have "\<forall>a\<in>set [app_meera, app_asha].
      a \<in> set (applications (demo_world\<lparr>applications := [app_meera, app_null_flag, app_asha]\<rparr>))
      \<and> matches pending_query a"
    by (rule conjunct2 [THEN mp])
  then have b: "matches pending_query app_meera" by simp
  show ?thesis by (intro conjI a b flag r)
qed

subsection \<open>How the store evolves under the pipeline's updates\<close>

lemma marking_indexed: "marking (indexed_update t)"
  by (simp add: marking_def settled_def doc_id_def set_fields_def indexed_update_def
      update_conv')

lemma marking_failed: "marking (failed_update e)"
  by (simp add: marking_def settled_def doc_id_def set_fields_def failed_update_def
      update_conv')



lemma evolves_refl: "evolves ds ds"
  by (simp add: evolves_def list_all2_same)




lemma evolves_update_first:
  "marking upd \<Longrightarrow> evolves ds (update_first q upd ds)"
  by (induction ds) (auto simp: evolves_def marking_def list_all2_same)






subsection \<open>Effects of the calls and of one record's processing\<close>

lemma update_one_effect:
  assumes "update_one E q upd w = (err, w')"
  shows "log w' = log w @ [UpdateOne q upd]"
    and "err = None \<Longrightarrow> applications w' = update_first q upd (applications w)"
    and "err \<noteq> None \<Longrightarrow> applications w' = applications w"
  using assms unfolding update_one_def logged_def
  by (cases "raised (write_fault E) w"; fastforce)+

lemma model_encode_effect:
  assumes "model_encode E t w = (r, w')"
  shows "log w' = log w @ [Encode t]" and "applications w' = applications w"
  using assms unfolding model_encode_def logged_def
  by (cases "encode E t"; fastforce)+

lemma index_try_body_effect:
  assumes "index_try_body E app oid app_id job_id pts w = (err, pts', w')"
  shows "(err = None \<longrightarrow>
           (\<exists>t. applications w' = update_first (id_query oid) (indexed_update t) (applications w)))
       \<and> (err \<noteq> None \<longrightarrow> applications w' = applications w)
       \<and> (\<exists>evs. log w' = log w @ evs \<and> list_all (\<lambda>ev. \<not> is_upsert ev) evs)"
proof (cases "extract_resume E app")
  case (Inl e)
  with assms show ?thesis by (auto simp: index_try_body_def)
next
  case (Inr t)
  obtain r w1 where me: "model_encode E t w = (r, w1)" by (metis surj_pair)
  note m = model_encode_effect[OF me]
  show ?thesis
  proof (cases r)
    case (Inl e)
    with assms \<open>extract_resume E app = Inr t\<close> me have "err = Some e" "w' = w1"
      by (simp_all add: index_try_body_def)
    moreover have "\<exists>evs. log w1 = log w @ evs \<and> list_all (\<lambda>ev. \<not> is_upsert ev) evs"
      using m(1) by (intro exI[of _ "[Encode t]"]) simp
    ultimately show ?thesis using m(2) by simp
  next
    case (Inr embedding)
    obtain e2 w2 where uo: "update_one E (id_query oid) (indexed_update (now E (length (log w1)))) w1 = (e2, w2)"
      by (metis surj_pair)
    note u = update_one_effect[OF uo]
    from assms \<open>extract_resume E app = Inr t\<close> me Inr uo
    have eq: "err = e2" "w' = w2" by (simp_all add: index_try_body_def Let_def)
    show ?thesis
    proof (intro conjI impI)
      assume "err = None"
      with eq u(2) m(2) show "\<exists>t. applications w' =
          update_first (id_query oid) (indexed_update t) (applications w)"
        by auto
    next
      assume "err \<noteq> None"
      with eq u(3) m(2) show "applications w' = applications w" by simp
    next
      have "log w' = log w @ [Encode t, UpdateOne (id_query oid) (indexed_update (now E (length (log w1))))]"
        using eq u(1) m(1) by simp
      then show "\<exists>evs. log w' = log w @ evs \<and> list_all (\<lambda>ev. \<not> is_upsert ev) evs"
        by (intro exI[of _ "[Encode t, UpdateOne (id_query oid)
              (indexed_update (now E (length (log w1))))]"]) simp
    qed
  qed
qed


lemma process_app_effect:
  assumes "process_app E app pts w = (err, pts', w')"
  shows "evolves (applications w) (applications w')
       \<and> (err = None \<longrightarrow> (\<exists>oid upd. doc_id app = Some oid \<and> marking upd \<and>
              applications w' = update_first (id_query oid) upd (applications w)))
       \<and> (\<exists>evs. log w' = log w @ evs \<and> list_all (\<lambda>ev. \<not> is_upsert ev) evs)"
proof (cases "map_of app ''_id''")
  case None
  with assms have "w' = w" by (simp add: process_app_def)
  moreover from None assms have "err \<noteq> None" by (auto simp: process_app_def)
  ultimately show ?thesis by (auto simp: evolves_refl)
next
  case (Some oid)
  define app_id where "app_id = py_str oid"
  define job_id where "job_id = py_str (case map_of app ''jobID'' of None \<Rightarrow> BStr [] | Some j \<Rightarrow> j)"
  obtain e1 p1 w1 where tb: "index_try_body E app oid app_id job_id pts w = (e1, p1, w1)"
    by (metis prod_cases3)
  note t = index_try_body_effect[OF tb]
  from t obtain evs1 where evs1: "log w1 = log w @ evs1" "list_all (\<lambda>ev. \<not> is_upsert ev) evs1"
    by blast
  show ?thesis
  proof (cases e1)
    case None
    with assms Some tb have eq: "err = None" "w' = w1"
      by (simp_all add: process_app_def Let_def app_id_def job_id_def)
    from t None obtain ts where ts:
      "applications w1 = update_first (id_query oid) (indexed_update ts) (applications w)"
      by blast
    have "evolves (applications w) (applications w')"
      using eq ts by (simp add: evolves_update_first marking_indexed)
    moreover have "\<exists>oid upd. doc_id app = Some oid \<and> marking upd \<and>
              applications w' = update_first (id_query oid) upd (applications w)"
      using eq ts Some marking_indexed by (auto simp: doc_id_def)
    ultimately show ?thesis using evs1 eq by blast
  next
    case (Some e)
    obtain e2 w2 where uo: "update_one E (id_query oid) (failed_update e) w1 = (e2, w2)"
      by (metis surj_pair)
    note u = update_one_effect[OF uo]
    from assms \<open>map_of app ''_id'' = Some oid\<close> tb Some uo have eq: "err = e2" "w' = w2"
      by (simp_all add: process_app_def Let_def app_id_def job_id_def)
    from t Some have same: "applications w1 = applications w" by simp
    have ev: "evolves (applications w) (applications w')"
    proof (cases e2)
      case None
      with u(2) same eq show ?thesis by (simp add: evolves_update_first marking_failed)
    next
      case (Some x)
      with u(3) same eq show ?thesis by (simp add: evolves_refl)
    qed
    have mk: "err = None \<longrightarrow> (\<exists>oid upd. doc_id app = Some oid \<and> marking upd \<and>
              applications w' = update_first (id_query oid) upd (applications w))"
      using eq u(2) same \<open>map_of app ''_id'' = Some oid\<close> marking_failed
      by (auto simp: doc_id_def)
    have "log w' = log w @ (evs1 @ [UpdateOne (id_query oid) (failed_update e)])"
      using eq u(1) evs1(1) by simp
    moreover have "list_all (\<lambda>ev. \<not> is_upsert ev) (evs1 @ [UpdateOne (id_query oid) (failed_update e)])"
      using evs1(2) by simp
    ultimately have "\<exists>evs. log w' = log w @ evs \<and> list_all (\<lambda>ev. \<not> is_upsert ev) evs"
      by blast
    with ev mk show ?thesis by blast
  qed
qed



subsection \<open>One iteration, and the loop\<close>


lemma logged_simps: "applications (logged ev w) = applications w"
  "log (logged ev w) = log w @ [ev]"
  by (simp_all add: logged_def)

lemma fetched_batch_logged: "fetched_batch E (logged ev w) = fetched_batch E w"
  by (simp add: fetched_batch_def logged_simps)

lemma raised_None: "raised flt w = None \<longleftrightarrow> flt (length (log w)) = None"
  by (simp add: raised_def)


lemma indexing_iteration_Again:
  assumes "indexing_iteration E w = (Again, w')"
  shows "\<exists>points w3. fetched_batch E w \<noteq> [] \<and>
           process_batch E (fetched_batch E w) [] (after_reads w) = (None, points, w3) \<and>
           w' = logged Sleep (if points \<noteq> [] then logged (Upsert points) w3 else w3)"
  using assms
  unfolding indexing_iteration_def count_documents_def find_batch_def upsert_def
    after_reads_def fetched_batch_def
  by (auto simp: logged_simps split: option.splits prod.splits if_splits)



lemma after_reads_simps: "applications (after_reads w) = applications w"
  "log (after_reads w) = log w @ [CountDocuments pending_query, Find ''applications'' pending_query]"
  by (simp_all add: after_reads_def logged_simps)










subsection \<open>The order of flag updates and the upsert\<close>

lemma process_batch_log:
  assumes "process_batch E batch pts w = (err, pts', w')"
  shows "\<exists>evs. log w' = log w @ evs \<and> list_all (\<lambda>ev. \<not> is_upsert ev) evs"
  using assms
proof (induction batch arbitrary: pts w)
  case Nil
  then show ?case by simp
next
  case (Cons app rest)
  obtain e1 p1 w1 where pa: "process_app E app pts w = (e1, p1, w1)"
    by (metis prod_cases3)
  from process_app_effect[OF pa] obtain evs1 where
    evs1: "log w1 = log w @ evs1" "list_all (\<lambda>ev. \<not> is_upsert ev) evs1"
    by blast
  show ?case
  proof (cases e1)
    case (Some e)
    with pa Cons.prems have "w' = w1" by simp
    with evs1 show ?thesis by blast
  next
    case None
    with pa Cons.prems have "process_batch E rest p1 w1 = (err, pts', w')" by simp
    from Cons.IH[OF this] obtain evs2 where
      evs2: "log w' = log w1 @ evs2" "list_all (\<lambda>ev. \<not> is_upsert ev) evs2"
      by blast
    have "log w' = log w @ (evs1 @ evs2)" using evs1(1) evs2(1) by simp
    moreover have "list_all (\<lambda>ev. \<not> is_upsert ev) (evs1 @ evs2)"
      using evs1(2) evs2(2) by simp
    ultimately show ?thesis by blast
  qed
qed

lemma index_try_body_done:
  assumes "index_try_body E app oid app_id job_id pts w = (None, pts', w')"
  shows "\<exists>t ts. extract_resume E app = Inr t \<and>
           log w' = log w @ [Encode t, UpdateOne (id_query oid) (indexed_update ts)] \<and>
           applications w' = update_first (id_query oid) (indexed_update ts) (applications w)"
proof (cases "extract_resume E app")
  case (Inl e)
  with assms show ?thesis by (simp add: index_try_body_def)
next
  case (Inr t)
  obtain r w1 where me: "model_encode E t w = (r, w1)" by (metis surj_pair)
  note m = model_encode_effect[OF me]
  show ?thesis
  proof (cases r)
    case (Inl e)
    with assms \<open>extract_resume E app = Inr t\<close> me show ?thesis
      by (simp add: index_try_body_def)
  next
    case (Inr embedding)
    obtain e2 w2 where uo:
      "update_one E (id_query oid) (indexed_update (now E (length (log w1)))) w1 = (e2, w2)"
      by (metis surj_pair)
    note u = update_one_effect[OF uo]
    from assms \<open>extract_resume E app = Inr t\<close> me Inr uo
    have eq: "e2 = None" "w' = w2" by (simp_all add: index_try_body_def Let_def)
    have "log w' = log w @ [Encode t, UpdateOne (id_query oid)
        (indexed_update (now E (length (log w1))))]"
      using eq u(1) m(1) by simp
    moreover have "applications w' = update_first (id_query oid)
        (indexed_update (now E (length (log w1)))) (applications w)"
      using eq u(2) m(2) by simp
    ultimately show ?thesis using \<open>extract_resume E app = Inr t\<close> by blast
  qed
qed

text \<open>
  On the three demo records the first iteration issues, as its fourth call, the update
  that sets \<^verbatim>\<open>rag_uploaded\<close> of record \<^verbatim>\<open>a1\<close>; the upsert is its eighth call. The flag
  is set before the upsert is issued.
\<close>

theorem flag_set_before_upsert:
  "take 4 (log (snd (indexing_iteration demo_env demo_world)))
     = [CountDocuments pending_query, Find ''applications'' pending_query,
        Encode ''Meera Nair analyst'',
        UpdateOne (id_query (BObjectId ''a1'')) (indexed_update ''1700000000.0'')]
   \<and> sets_flag (log (snd (indexing_iteration demo_env demo_world)) ! 3)
   \<and> is_upsert (log (snd (indexing_iteration demo_env demo_world)) ! 7)
   \<and> \<not> no_flag_before_upsert (log (snd (indexing_iteration demo_env demo_world)))"
  by code_simp

text \<open>
  Claim C2, amended. The flag of a record is set by the record's own update, the
  last step of its \<^verbatim>\<open>try\<close> body, together with the status \<^verbatim>\<open>indexed\<close>. In an iteration
  that completes, the calls are the two reads, then the calls of the records' processing
  (no upsert among them, all flag updates among them), then one upsert of all the
  points built for the batch (none if no point was built), then the pause.
\<close>

theorem flag_written_by_record_update_then_single_upsert:
  "(index_try_body E app oid app_id job_id pts w = (None, pts', w') \<longrightarrow>
      (\<exists>t ts. log w' = log w @ [Encode t, UpdateOne (id_query oid) (indexed_update ts)] \<and>
         sets_flag (UpdateOne (id_query oid) (indexed_update ts)) \<and>
         applications w' = update_first (id_query oid) (indexed_update ts) (applications w)))
   \<and> (indexing_iteration E v = (Again, v') \<longrightarrow>
      (\<exists>evs points v3.
         process_batch E (fetched_batch E v) [] (after_reads v) = (None, points, v3) \<and>
         list_all (\<lambda>ev. \<not> is_upsert ev) evs \<and>
         log v' = log v @ [CountDocuments pending_query, Find ''applications'' pending_query]
                    @ evs @ (if points = [] then [] else [Upsert points]) @ [Sleep]))"
proof (intro conjI impI)
  assume "index_try_body E app oid app_id job_id pts w = (None, pts', w')"
  from index_try_body_done[OF this]
  show "\<exists>t ts. log w' = log w @ [Encode t, UpdateOne (id_query oid) (indexed_update ts)] \<and>
         sets_flag (UpdateOne (id_query oid) (indexed_update ts)) \<and>
         applications w' = update_first (id_query oid) (indexed_update ts) (applications w)"
    by (auto simp: indexed_update_def)
next
  assume it: "indexing_iteration E v = (Again, v')"
  from indexing_iteration_Again[OF it] obtain points v3 where
    pb: "process_batch E (fetched_batch E v) [] (after_reads v) = (None, points, v3)" and
    v': "v' = logged Sleep (if points \<noteq> [] then logged (Upsert points) v3 else v3)"
    by blast
  from process_batch_log[OF pb] obtain evs where
    evs: "log v3 = log (after_reads v) @ evs" "list_all (\<lambda>ev. \<not> is_upsert ev) evs"
    by blast
  have "log v' = log v @ [CountDocuments pending_query, Find ''applications'' pending_query]
                    @ evs @ (if points = [] then [] else [Upsert points]) @ [Sleep]"
    using v' evs(1) by (simp add: logged_simps after_reads_simps)
  with pb evs(2) show "\<exists>evs points v3.
         process_batch E (fetched_batch E v) [] (after_reads v) = (None, points, v3) \<and>
         list_all (\<lambda>ev. \<not> is_upsert ev) evs \<and>
         log v' = log v @ [CountDocuments pending_query, Find ''applications'' pending_query]
                    @ evs @ (if points = [] then [] else [Upsert points]) @ [Sleep]"
    by blast
qed


theorem flag_written_by_record_update_then_single_upsert_witness:
  "fst (index_try_body demo_env app_meera (BObjectId ''a1'') ''a1'' ''j1'' [] demo_world) = None
   \<and> (\<exists>t ts. log (snd (snd (index_try_body demo_env app_meera (BObjectId ''a1'') ''a1'' ''j1'' []
                  demo_world)))
          = log demo_world @ [Encode t, UpdateOne (id_query (BObjectId ''a1'')) (indexed_update ts)])
   \<and> fst (indexing_iteration demo_env demo_world) = Again
   \<and> (\<exists>evs points. list_all (\<lambda>ev. \<not> is_upsert ev) evs \<and>
         log (snd (indexing_iteration demo_env demo_world))
           = log demo_world @ [CountDocuments pending_query, Find ''applications'' pending_query]
               @ evs @ (if points = [] then [] else [Upsert points]) @ [Sleep])"
proof -
  have e1: "fst (index_try_body demo_env app_meera (BObjectId ''a1'') ''a1'' ''j1'' []
      demo_world) = None"
    by code_simp
  then have tb: "index_try_body demo_env app_meera (BObjectId ''a1'') ''a1'' ''j1'' [] demo_world
      = (None, fst (snd (index_try_body demo_env app_meera (BObjectId ''a1'') ''a1'' ''j1'' []
            demo_world)),
         snd (snd (index_try_body demo_env app_meera (BObjectId ''a1'') ''a1'' ''j1'' []
            demo_world)))"
    by (metis prod.collapse)
  have ag: "fst (indexing_iteration demo_env demo_world) = Again" by code_simp
  then have it: "indexing_iteration demo_env demo_world
      = (Again, snd (indexing_iteration demo_env demo_world))"
    by (metis prod.collapse)
  note T = flag_written_by_record_update_then_single_upsert
    [of demo_env app_meera "BObjectId ''a1''" "''a1''" "''j1''" "[]" demo_world
        "fst (snd (index_try_body demo_env app_meera (BObjectId ''a1'') ''a1'' ''j1'' []
            demo_world))"
        "snd (snd (index_try_body demo_env app_meera (BObjectId ''a1'') ''a1'' ''j1'' []
            demo_world))"
        demo_world "snd (indexing_iteration demo_env demo_world)"]
  from T tb have a: "\<exists>t ts. log (snd (snd (index_try_body demo_env app_meera (BObjectId ''a1'')
        ''a1'' ''j1'' [] demo_world)))
          = log demo_world @ [Encode t, UpdateOne (id_query (BObjectId ''a1'')) (indexed_update ts)]"
    by blast
  from T it have b: "\<exists>evs points. list_all (\<lambda>ev. \<not> is_upsert ev) evs \<and>
         log (snd (indexing_iteration demo_env demo_world))
           = log demo_world @ [CountDocuments pending_query, Find ''applications'' pending_query]
               @ evs @ (if points = [] then [] else [Upsert points]) @ [Sleep]"
    by blast
  show ?thesis by (intro conjI e1 a ag b)
qed

section \<open>Properties of the matching pipeline\<close>

subsection \<open>The status writes of one job\<close>

lemma write_statuses_skip:
  "planned_update E c r = None \<Longrightarrow>
     write_statuses E c (r # rest) w = write_statuses E c rest w"
  by (simp add: planned_update_def Let_def split: option.splits if_splits)

lemma write_statuses_write:
  "planned_update E c r = Some (UpdateOne q upd) \<Longrightarrow>
     write_statuses E c (r # rest) w =
       (case update_one E q upd w of
          (Some e, w') \<Rightarrow> (Some e, w')
        | (None, w') \<Rightarrow> write_statuses E c rest w')"
  by (auto simp: planned_update_def Let_def split: option.splits if_splits)

lemma planned_update_shape:
  "planned_update E c r = Some ev \<Longrightarrow> \<exists>q upd. ev = UpdateOne q upd"
  by (auto simp: planned_update_def split: option.splits if_splits)

lemma planned_writes_Cons:
  "planned_writes E c (r # rest) =
     (case planned_update E c r of None \<Rightarrow> planned_writes E c rest
      | Some ev \<Rightarrow> ev # planned_writes E c rest)"
  by (simp add: planned_writes_def List.map_filter_simps split: option.splits)


lemma write_statuses_raised:
  "write_statuses E c rs w = (Some e, w') \<Longrightarrow>
     \<exists>k m. k < length (planned_writes E c rs) \<and>
       log w' = log w @ take (Suc k) (planned_writes E c rs) \<and>
       applications w' = fold apply_update (take k (planned_writes E c rs)) (applications w) \<and>
       write_fault E (length (log w) + k) = Some m \<and> e = LibraryError m"
proof (induction rs arbitrary: w)
  case Nil
  then show ?case by simp
next
  case (Cons r rest)
  show ?case
  proof (cases "planned_update E c r")
    case None
    from Cons.prems have "write_statuses E c rest w = (Some e, w')"
      by (simp only: write_statuses_skip[OF None])
    from Cons.IH[OF this] None show ?thesis by (simp add: planned_writes_Cons)
  next
    case (Some ev)
    then obtain q upd where ev: "ev = UpdateOne q upd" using planned_update_shape by blast
    from Cons.prems have step: "(case update_one E q upd w of
          (Some e, w') \<Rightarrow> (Some e, w')
        | (None, w') \<Rightarrow> write_statuses E c rest w') = (Some e, w')"
      using Some ev by (simp only: write_statuses_write)
    have pw: "planned_writes E c (r # rest) = UpdateOne q upd # planned_writes E c rest"
      using Some ev by (simp add: planned_writes_Cons)
    obtain e1 w1 where uo: "update_one E q upd w = (e1, w1)" by (metis surj_pair)
    note u = update_one_effect[OF uo]
    show ?thesis
    proof (cases e1)
      case None
      with step uo have rest: "write_statuses E c rest w1 = (Some e, w')"
        by simp
      from Cons.IH[OF rest] obtain k m where k: "k < length (planned_writes E c rest)"
        "log w' = log w1 @ take (Suc k) (planned_writes E c rest)"
        "applications w' = fold apply_update (take k (planned_writes E c rest)) (applications w1)"
        "write_fault E (length (log w1) + k) = Some m" "e = LibraryError m"
        by blast
      have "Suc k < length (planned_writes E c (r # rest))" using k(1) pw by simp
      moreover have "log w' = log w @ take (Suc (Suc k)) (planned_writes E c (r # rest))"
        using k(2) u(1) pw by simp
      moreover have "applications w' =
          fold apply_update (take (Suc k) (planned_writes E c (r # rest))) (applications w)"
        using k(3) u(2)[OF None] pw by simp
      moreover have "write_fault E (length (log w) + Suc k) = Some m"
        using k(4) u(1) by simp
      ultimately show ?thesis using k(5) by blast
    next
      case (Some x)
      with step uo have eq: "e = x" "w' = w1" by simp_all
      from uo Some obtain m where m: "write_fault E (length (log w)) = Some m" "x = LibraryError m"
        by (auto simp: update_one_def raised_def split: option.splits)
      have "0 < length (planned_writes E c (r # rest))" using pw by simp
      moreover have "log w' = log w @ take (Suc 0) (planned_writes E c (r # rest))"
        using eq u(1) pw by simp
      moreover have "applications w' =
          fold apply_update (take 0 (planned_writes E c (r # rest))) (applications w)"
        using eq u(3) Some by simp
      ultimately show ?thesis using m eq by (metis add.right_neutral)
    qed
  qed
qed

lemma py_max_Max: "py_max s ss = Max (set (s # ss))"
  unfolding py_max_def by (rule Max.set_eq_fold[symmetric])




lemma match_try_body_writes:
  assumes "query_points E jd_vector = Inr results"
    and "filter_by_job job_id results = Inr search_results"
    and "scores_of search_results = s # ss"
  shows "match_try_body E job_id jd_vector w =
           write_statuses E (0.63 * Max (set (scores_of search_results))) search_results
             (logged (QueryPoints jd_vector) w)"
proof -
  have "search_results \<noteq> []" using assms(3) by (auto simp: scores_of_def List.map_filter_simps)
  moreover have "py_max s ss * 0.63 = 0.63 * Max (set (scores_of search_results))"
    using assms(3) by (simp only: py_max_Max mult.commute)
  ultimately show ?thesis
    using assms by (simp add: match_try_body_def Let_def mult.commute)
qed





subsection \<open>A failing status write\<close>

lemma process_job_runs:
  assumes "map_of job ''_id'' = Some jid" and "map_of job ''description'' = Some (BStr d)"
    and "py_strip d \<noteq> []" and "encode E (clean_html E d) = Inr vec"
  shows "process_job E job w =
           (None, snd (match_try_body E (py_str jid) vec (logged (Encode (clean_html E d)) w)))"
  using assms
  by (simp add: process_job_def model_encode_def split: prod.splits)

text \<open>
  With a store whose second call fails, the first status write of the first job
  raises: the three writes planned after it are never issued.
\<close>

theorem failed_write_blocks_remaining_writes:
  "match_try_body flaky_env ''j1'' [10, 1] match_world
     = (Some (LibraryError ''connection reset''),
        \<lparr>applications = applications match_world,
         log = [QueryPoints [10, 1],
                UpdateOne (id_query (BStr ''a1'')) [(''resume_status'', BStr ''selected'')]]\<rparr>)
   \<and> planned_writes flaky_env 0.567
        [hit ''a1'' ''j1'' 0.90, hit ''a2'' ''j1'' 0.70, hit ''a3'' ''j1'' 0.60,
         hit ''a4'' ''j1'' 0.30]
       = [UpdateOne (id_query (BStr ''a1'')) [(''resume_status'', BStr ''selected'')],
          UpdateOne (id_query (BStr ''a2'')) [(''resume_status'', BStr ''selected'')],
          UpdateOne (id_query (BStr ''a3'')) [(''resume_status'', BStr ''selected'')],
          UpdateOne (id_query (BStr ''a4'')) [(''resume_status'', BStr ''rejected'')]]"
  by code_simp

text \<open>
  Claim C7, amended. The status writes of a job are issued in order and the first one
  that raises ends the loop: the writes before it are applied, the ones after it are
  not attempted. The exception is absorbed by the job's handler: the job's turn ends
  without an exception and the pipeline goes on with the next job.
\<close>

theorem failing_status_write_ends_the_job:
  "(query_points E jd_vector = Inr results \<and>
    filter_by_job job_id results = Inr search_results \<and>
    scores_of search_results = s # ss \<and>
    match_try_body E job_id jd_vector w = (Some e, w') \<longrightarrow>
      (\<exists>k m. k < length (planned_writes E (0.63 * Max (set (scores_of search_results)))
                         search_results) \<and>
         log w' = log w @ QueryPoints jd_vector #
                    take (Suc k) (planned_writes E (0.63 * Max (set (scores_of search_results)))
                                    search_results) \<and>
         applications w' =
           fold apply_update
             (take k (planned_writes E (0.63 * Max (set (scores_of search_results)))
                        search_results))
             (applications w) \<and>
         write_fault E (Suc (length (log w)) + k) = Some m \<and> e = LibraryError m))
   \<and> (map_of job ''_id'' = Some jid \<and> map_of job ''description'' = Some (BStr d) \<and>
      py_strip d \<noteq> [] \<and> encode E (clean_html E d) = Inr vec \<longrightarrow>
        process_job E job v =
          (None, snd (match_try_body E (py_str jid) vec (logged (Encode (clean_html E d)) v))) \<and>
        process_jobs E (job # rest) v =
          process_jobs E rest
            (snd (match_try_body E (py_str jid) vec (logged (Encode (clean_html E d)) v))))"
proof (intro conjI impI)
  let ?c = "0.63 * Max (set (scores_of search_results))"
  assume a: "query_points E jd_vector = Inr results \<and>
    filter_by_job job_id results = Inr search_results \<and>
    scores_of search_results = s # ss \<and>
    match_try_body E job_id jd_vector w = (Some e, w')"
  then have ws: "write_statuses E ?c search_results (logged (QueryPoints jd_vector) w) = (Some e, w')"
    using match_try_body_writes[of E jd_vector results job_id search_results s ss w] by simp
  from write_statuses_raised[OF ws]
  show "\<exists>k m. k < length (planned_writes E ?c search_results) \<and>
         log w' = log w @ QueryPoints jd_vector # take (Suc k) (planned_writes E ?c search_results) \<and>
         applications w' = fold apply_update (take k (planned_writes E ?c search_results))
             (applications w) \<and>
         write_fault E (Suc (length (log w)) + k) = Some m \<and> e = LibraryError m"
    by (simp add: logged_simps)
next
  assume b: "map_of job ''_id'' = Some jid \<and> map_of job ''description'' = Some (BStr d) \<and>
      py_strip d \<noteq> [] \<and> encode E (clean_html E d) = Inr vec"
  then show pj: "process_job E job v =
          (None, snd (match_try_body E (py_str jid) vec (logged (Encode (clean_html E d)) v)))"
    using process_job_runs by blast
  then show "process_jobs E (job # rest) v =
          process_jobs E rest
            (snd (match_try_body E (py_str jid) vec (logged (Encode (clean_html E d)) v)))"
    by simp
qed

theorem failing_status_write_ends_the_job_witness:
  "fst (match_try_body flaky_env ''j1'' [10, 1] match_world)
     = Some (LibraryError ''connection reset'')
   \<and> (\<exists>k m. k < 4 \<and> write_fault flaky_env (Suc (length (log match_world)) + k) = Some m
         \<and> LibraryError ''connection reset'' = LibraryError m)
   \<and> process_job flaky_env job_api match_world
       = (None, snd (match_try_body flaky_env ''j1'' [10, 1]
                       (logged (Encode ''Build APIs'') match_world)))"
proof -
  let ?sr = "[hit ''a1'' ''j1'' 0.90, hit ''a2'' ''j1'' 0.70, hit ''a3'' ''j1'' 0.60,
              hit ''a4'' ''j1'' 0.30]"
  have q: "query_points flaky_env [10, 1] = Inr index_hits" by code_simp
  have f: "filter_by_job ''j1'' index_hits = Inr ?sr" by code_simp
  have sc: "scores_of ?sr = [0.90, 0.70, 0.60, 0.30]" by code_simp
  have er: "fst (match_try_body flaky_env ''j1'' [10, 1] match_world)
     = Some (LibraryError ''connection reset'')"
    by code_simp
  then have run: "match_try_body flaky_env ''j1'' [10, 1] match_world
      = (Some (LibraryError ''connection reset''),
         snd (match_try_body flaky_env ''j1'' [10, 1] match_world))"
    by (metis prod.collapse)
  have len: "length (planned_writes flaky_env (0.63 * Max (set (scores_of ?sr))) ?sr) = 4"
    by code_simp
  have i: "map_of job_api ''_id'' = Some (BObjectId ''j1'')" by code_simp
  have d: "map_of job_api ''description'' = Some (BStr ''<p>Build <b>APIs</b></p>'')"
    by code_simp
  have ne: "py_strip ''<p>Build <b>APIs</b></p>'' \<noteq> []" by code_simp
  have cl: "clean_html flaky_env ''<p>Build <b>APIs</b></p>'' = ''Build APIs''" by code_simp
  have en: "encode flaky_env ''Build APIs'' = Inr [10, 1]" by code_simp
  note T = failing_status_write_ends_the_job
    [of flaky_env "[10, 1]" index_hits "''j1''" ?sr "0.90" "[0.70, 0.60, 0.30]" match_world
        "LibraryError ''connection reset''"
        "snd (match_try_body flaky_env ''j1'' [10, 1] match_world)"
        job_api "BObjectId ''j1''" "''<p>Build <b>APIs</b></p>''" "[10, 1]" match_world "[]"]
  from T q f sc run have "\<exists>k m. k < length (planned_writes flaky_env
            (0.63 * Max (set (scores_of ?sr))) ?sr) \<and>
         write_fault flaky_env (Suc (length (log match_world)) + k) = Some m \<and>
         LibraryError ''connection reset'' = LibraryError m"
    by blast
  then have a: "\<exists>k m. k < 4 \<and> write_fault flaky_env (Suc (length (log match_world)) + k) = Some m
         \<and> LibraryError ''connection reset'' = LibraryError m"
    unfolding len .
  from T i d ne en cl have b: "process_job flaky_env job_api match_world
       = (None, snd (match_try_body flaky_env ''j1'' [10, 1]
                       (logged (Encode ''Build APIs'') match_world)))"
    by simp
  show ?thesis by (intro conjI er a b)
qed

subsection \<open>Jobs without a description\<close>

text \<open>
  The third job's description is markup around a blank: cleaned it is empty, yet the
  job is embedded, queried and one status is written.
\<close>

theorem markup_only_description_not_skipped:
  "clean_html match_env ''<p> </p>'' = []
   \<and> map_of job_markup_only ''description'' = Some (BStr ''<p> </p>'')
   \<and> process_job match_env job_markup_only match_world
     = (None,
        \<lparr>applications = [indexed_app ''a1'' ''j1'', indexed_app ''a2'' ''j1'',
            indexed_app ''a3'' ''j1'', indexed_app ''a4'' ''j1'', indexed_app ''a5'' ''j2'',
            [(''_id'', BStr ''a6''), (''jobID'', BStr ''j3''),
             (''resume_status'', BStr ''selected''), (''rag_uploaded'', BBool True)]],
         log = [Encode [], QueryPoints [0, 1],
                UpdateOne (id_query (BStr ''a6'')) [(''resume_status'', BStr ''selected'')]]\<rparr>)"
  by code_simp

text \<open>
  Claim C6, amended. A job whose description, as stored and before any markup is
  stripped, is missing, empty or whitespace-only is skipped entirely: its turn leaves
  the world as it was, so nothing is embedded, no index query is made and no status
  is written.
\<close>

theorem blank_stored_description_skips_job:
  assumes "map_of job ''_id'' = Some jid"
    and "map_of job ''description'' = None \<or>
         (\<exists>d. map_of job ''description'' = Some (BStr d) \<and> py_strip d = [])"
  shows "process_job E job w = (None, w)"
  using assms by (auto simp: process_job_def py_strip_def)


theorem blank_stored_description_skips_job_witness:
  "map_of job_blank ''_id'' = Some (BObjectId ''j4'')
   \<and> map_of job_blank ''description'' = Some (BStr ''  '')
   \<and> py_strip ''  '' = []
   \<and> process_job match_env job_blank match_world = (None, match_world)"
proof -
  have i: "map_of job_blank ''_id'' = Some (BObjectId ''j4'')" by code_simp
  have d: "map_of job_blank ''description'' = Some (BStr ''  '')" by code_simp
  have b: "py_strip ''  '' = []" by code_simp
  from d b have "map_of job_blank ''description'' = None \<or>
         (\<exists>d. map_of job_blank ''description'' = Some (BStr d) \<and> py_strip d = [])"
    by blast
  from blank_stored_description_skips_job [OF i this, of match_env match_world]
  have r: "process_job match_env job_blank match_world = (None, match_world)" .
  show ?thesis by (intro conjI i d b r)
qed

section \<open>Properties of the entry points and the trigger\<close>




lemma run_agent_task_shape:
  "run_agent_task E agent_mode w = Some (le, running, w') \<Longrightarrow> running = False"
  by (auto simp: run_agent_task_def split: option.splits sum.splits prod.splits if_splits)





end
